theory Spec2Isabelle
  imports
    Main
    "HOL-Library.Word"
    "HOL-Library.Signed_Division"
    "HOL-Library.Char_ord"
    "HOL-Library.List_Lexorder"
    "HOL-Library.AList"
begin

section \<open>Migration of one legacy dashboard alert (pkg/services/ngalert/migration/alert_rule.go)\<close>

text \<open>
  A shallow embedding of \<^verbatim>\<open>alert_rule.go\<close>. Go's \<^verbatim>\<open>int64\<close> is a 64-bit word read
  as two's complement, a Go string is its list of bytes (\<open>string\<close>), an error return and
  a panic are the left summand of a sum type, the logger is the list of entries written so
  far (passed in and returned), and the receiver \<^verbatim>\<open>om\<close> is a record passed in and
  returned. Everything the file calls but does not define (other packages of the
  repository, the standard library, third-party libraries) is either a field of the
  record \<open>Env\<close> or, where the file depends on how it behaves, modelled below with a note.
\<close>

subsection \<open>Machine integers\<close>

type_synonym int64 = "64 word"

text \<open>Go's \<^verbatim>\<open>%\<close> on \<^verbatim>\<open>int64\<close> truncates towards zero (the divisor here is never 0).\<close>

definition int64_rem :: "int64 \<Rightarrow> int64 \<Rightarrow> int64" where
  "int64_rem a b = word_of_int (sint a smod sint b)"

text \<open>\<^verbatim>\<open>fmt.Sprintf("%v", n)\<close> for an \<^verbatim>\<open>int64\<close>: the signed decimal numeral.\<close>

fun natDigits :: "nat \<Rightarrow> string" where
  "natDigits n =
     (if n < 10 then [char_of (48 + n)]
      else natDigits (n div 10) @ [char_of (48 + n mod 10)])"

declare natDigits.simps [simp del]

definition formatInt64 :: "int64 \<Rightarrow> string" where
  "formatInt64 x =
     (let k = sint x in if k < 0 then CHR ''-'' # natDigits (nat (- k)) else natDigits (nat k))"

subsection \<open>Errors and the logger\<close>

datatype error =
    SyntaxError
  | UnmarshalTypeError
  | MissingDatasourceField
  | ParseDatasource error
  | MissingTypeField
  | Panic string
  | Wrapped string error
  | External string

text \<open>\<^verbatim>\<open>fmt.Errorf("...: %w", err)\<close> wraps an error; a panic is not an error value and passes through.\<close>

definition wrapError :: "string \<Rightarrow> error \<Rightarrow> error" where
  "wrapError msg err = (case err of Panic p \<Rightarrow> Panic p | _ \<Rightarrow> Wrapped msg err)"

datatype level = LvlDebug | LvlInfo | LvlWarn | LvlError

type_synonym Logger = "(level \<times> string) list"

definition logAt :: "level \<Rightarrow> Logger \<Rightarrow> string \<Rightarrow> Logger" where
  "logAt lv l msg = l @ [(lv, msg)]"

subsection \<open>JSON documents and Go's decoder\<close>

text \<open>
  A JSON text is represented by what it parses to; an object keeps its members in
  document order, duplicates included, and a number keeps its literal. A
  \<^verbatim>\<open>json.RawMessage\<close> is a byte string: either it is not a well-formed JSON text, or
  it is one.
\<close>

datatype json =
    JNull
  | JBool bool
  | JNumber string
  | JString string
  | JArray "json list"
  | JObject "(string \<times> json) list"

datatype RawMessage = Malformed | Wellformed json

text \<open>
  \<^verbatim>\<open>map[string]json.RawMessage\<close>: the nil map, or the entries of a map (one per key).
  Reading and \<^verbatim>\<open>delete\<close> work on the nil map; assigning to an entry of it panics.
\<close>

datatype RawMap = NilMap | GoMap "(string \<times> json) list"

definition lookup :: "RawMap \<Rightarrow> string \<Rightarrow> json option" where
  "lookup m k = (case m of NilMap \<Rightarrow> None | GoMap al \<Rightarrow> map_of al k)"

definition deleteKey :: "string \<Rightarrow> RawMap \<Rightarrow> RawMap" where
  "deleteKey k m = (case m of NilMap \<Rightarrow> NilMap | GoMap al \<Rightarrow> GoMap (AList.delete k al))"

definition assign :: "string \<Rightarrow> json \<Rightarrow> RawMap \<Rightarrow> error + RawMap" where
  "assign k v m =
     (case m of
        NilMap \<Rightarrow> Inl (Panic ''assignment to entry in nil map'')
      | GoMap al \<Rightarrow> Inr (GoMap (AList.update k v al)))"

text \<open>
  \<^verbatim>\<open>json.Unmarshal(raw, &m)\<close> for a nil \<^verbatim>\<open>m\<close> of map type (standard library,
  \<^verbatim>\<open>encoding/json\<close>): a syntax error for a malformed text; the literal \<^verbatim>\<open>null\<close>
  leaves the map nil and is no error; an object fills the map member by member, a later
  duplicate replacing an earlier one; any other JSON value is a type error.
\<close>

definition unmarshalMap :: "RawMessage \<Rightarrow> error + RawMap" where
  "unmarshalMap raw =
     (case raw of
        Malformed \<Rightarrow> Inl SyntaxError
      | Wellformed JNull \<Rightarrow> Inr NilMap
      | Wellformed (JObject kvs) \<Rightarrow> Inr (GoMap (fold (\<lambda>(k, v). AList.update k v) kvs []))
      | Wellformed _ \<Rightarrow> Inl UnmarshalTypeError)"

text \<open>
  \<^verbatim>\<open>json.Marshal(m)\<close>: \<^verbatim>\<open>null\<close> for the nil map, otherwise an object with the keys
  in byte-wise sorted order. The values were decoded from well-formed JSON (or are the
  literal \<^verbatim>\<open>false\<close>), so encoding cannot fail; the error branch of the source is kept
  in the result type.
\<close>

definition marshalMap :: "RawMap \<Rightarrow> error + RawMessage" where
  "marshalMap m =
     (case m of
        NilMap \<Rightarrow> Inr (Wellformed JNull)
      | GoMap al \<Rightarrow> Inr (Wellformed (JObject (sort_key fst al))))"

text \<open>
  \<^verbatim>\<open>json.Unmarshal(raw, &b)\<close> for a \<^verbatim>\<open>bool\<close> holding \<open>cur\<close>: \<^verbatim>\<open>null\<close> leaves it
  unchanged without error, a JSON boolean sets it, anything else is a type error.
\<close>

definition unmarshalBool :: "json \<Rightarrow> bool \<Rightarrow> error + bool" where
  "unmarshalBool raw cur =
     (case raw of
        JBool b \<Rightarrow> Inr b
      | JNull \<Rightarrow> Inr cur
      | _ \<Rightarrow> Inl UnmarshalTypeError)"

text \<open>
  Decoding into \<^verbatim>\<open>struct { Type string `json:"type"` }\<close>. An object member matches
  the field when its key is \<^verbatim>\<open>type\<close> exactly or up to the case of its ASCII letters;
  members are stored in document order, so the last match wins. A string member sets
  the field, \<^verbatim>\<open>null\<close> leaves it, any other value records a type error and decoding
  goes on. \<^verbatim>\<open>null\<close> in place of the object leaves the struct zero; any other
  non-object is a type error.
\<close>

definition asciiUpper :: "char \<Rightarrow> char" where
  "asciiUpper c =
     (let n = (of_char c :: nat) in if 97 \<le> n \<and> n \<le> 122 then char_of (n - 32) else c)"

definition equalFold :: "string \<Rightarrow> string \<Rightarrow> bool" where
  "equalFold s t \<longleftrightarrow> map asciiUpper s = map asciiUpper t"

definition storeTypeField :: "string \<times> json \<Rightarrow> string \<times> bool \<Rightarrow> string \<times> bool" where
  "storeTypeField kv st =
     (if fst kv = ''type'' \<or> equalFold (fst kv) ''type''
      then (case snd kv of
              JString s \<Rightarrow> (s, snd st)
            | JNull \<Rightarrow> st
            | _ \<Rightarrow> (fst st, True))
      else st)"

definition unmarshalDatasource :: "json \<Rightarrow> error + string" where
  "unmarshalDatasource raw =
     (case raw of
        JNull \<Rightarrow> Inr ''''
      | JObject kvs \<Rightarrow>
          (let st = fold storeTypeField kvs ('''', False)
           in if snd st then Inl UnmarshalTypeError else Inr (fst st))
      | _ \<Rightarrow> Inl UnmarshalTypeError)"

subsection \<open>Records of the packages involved\<close>

datatype NoDataState = Alerting | NoData | OK

datatype ExecutionErrorState = AlertingErrState | ErrorErrState | OkErrState

record AlertQuery =
  query_RefID :: string
  query_QueryType :: string
  query_RelativeTimeRange :: "int64 \<times> int64"
  query_DatasourceUID :: string
  query_Model :: RawMessage

record Alert =
  alert_ID :: int64
  alert_OrgID :: int64
  alert_PanelID :: int64
  alert_Name :: string
  alert_Message :: string
  alert_State :: string
  alert_Frequency :: int64
  alert_For :: int64
  alert_Settings :: json

record notificationKey =
  key_UID :: string
  key_ID :: int64

record dashAlertSettings =
  settings_NoDataState :: string
  settings_ExecutionErrorState :: string
  settings_Conditions :: "json list"
  settings_Notifications :: "notificationKey list"

record AlertNotification =
  channel_ID :: int64
  channel_UID :: string
  channel_Name :: string

record DashboardUpgradeInfo =
  info_DashboardUID :: string
  info_DashboardName :: string
  info_NewFolderUID :: string

record condition =
  cond_Condition :: string
  cond_Data :: "AlertQuery list"

record AlertRule =
  rule_OrgID :: int64
  rule_Title :: string
  rule_UID :: string
  rule_Condition :: string
  rule_Data :: "AlertQuery list"
  rule_IntervalSeconds :: int64
  rule_Version :: int64
  rule_NamespaceUID :: string
  rule_DashboardUID :: "string option"
  rule_PanelID :: "int64 option"
  rule_RuleGroup :: string
  rule_For :: int64
  rule_Updated :: int
  rule_Annotations :: "string \<rightharpoonup> string"
  rule_Labels :: "string \<rightharpoonup> string"
  rule_RuleGroupIndex :: int
  rule_IsPaused :: bool
  rule_NoDataState :: NoDataState
  rule_ExecErrState :: ExecutionErrorState

datatype SilenceKind = ErrorSilence | NoDataSilence

record SilenceRequest =
  silence_Kind :: SilenceKind
  silence_RuleUID :: string

record OrgMigration =
  om_silences :: "SilenceRequest list"
  om_log :: Logger

text \<open>
  What \<^verbatim>\<open>alert_rule.go\<close> takes from outside: constants declared in other packages,
  and for each external call its outcome. \<open>durationString\<close> is
  \<^verbatim>\<open>model.Duration.String\<close> of the Prometheus library; \<open>marshalSettings\<close> and
  \<open>unmarshalSettings\<close> are the two JSON steps on the legacy settings document;
  \<open>deduplicateTitle\<close> is the per-folder title deduplicator; \<open>silenceStoreError\<close> is
  the error, if any, that creating a silence reports.
\<close>

record Env =
  expressionDatasourceUID :: string
  AlertRuleMaxRuleGroupNameLength :: int
  AlertDefinitionMaxTitleLength :: int
  MigratedUseLegacyChannelsLabel :: string
  DashboardUIDAnnotation :: string
  PanelIDAnnotation :: string
  MigratedAlertIdAnnotation :: string
  MigratedMessageAnnotation :: string
  durationString :: "int64 \<Rightarrow> string"
  marshalSettings :: "json \<Rightarrow> error + string"
  unmarshalSettings :: "string \<Rightarrow> error + dashAlertSettings"
  transConditions :: "dashAlertSettings \<Rightarrow> int64 \<Rightarrow> error + condition"
  getChannelByID :: "int64 \<Rightarrow> AlertNotification option"
  getChannelByUID :: "string \<Rightarrow> AlertNotification option"
  getTagsFromSettings :: "Alert \<Rightarrow> (string \<times> string) list"
  contactLabel :: "string \<Rightarrow> string"
  MigrateTmpl :: "string \<Rightarrow> string"
  deduplicateTitle :: "string \<Rightarrow> string \<Rightarrow> error + string"
  generateShortUID :: string
  timeNowUTC :: int
  getLabelForSilenceMatching :: "string \<Rightarrow> string \<times> string"
  silenceStoreError :: "SilenceKind \<Rightarrow> AlertRule \<Rightarrow> error option"

subsection \<open>Constants of other packages\<close>

text \<open>
  Modelled from the spec: the option constants of package \<^verbatim>\<open>legacymodels\<close> are declared
  outside \<^verbatim>\<open>alert_rule.go\<close>; section 4.1 of the specification gives their string values.
\<close>

definition NoDataSetOK :: string where "NoDataSetOK = ''ok''"
definition NoDataSetNoData :: string where "NoDataSetNoData = ''no_data''"
definition NoDataSetAlerting :: string where "NoDataSetAlerting = ''alerting''"
definition NoDataKeepState :: string where "NoDataKeepState = ''keep_state''"
definition ExecutionErrorSetAlerting :: string where "ExecutionErrorSetAlerting = ''alerting''"
definition ExecutionErrorKeepState :: string where "ExecutionErrorKeepState = ''keep_state''"
definition ExecutionErrorSetOk :: string where "ExecutionErrorSetOk = ''ok''"

text \<open>
  Modelled from the spec: \<^verbatim>\<open>datasources.DS_PROMETHEUS\<close> is declared outside
  \<^verbatim>\<open>alert_rule.go\<close>; section 8 of the specification gives the type string.
\<close>

definition DS_PROMETHEUS :: string where "DS_PROMETHEUS = ''prometheus''"

text \<open>
  The two field names of package \<^verbatim>\<open>graphite\<close>, as the comment above
  \<^verbatim>\<open>fixGraphiteReferencedSubQueries\<close> names them.
\<close>

definition TargetFullModelField :: string where "TargetFullModelField = ''targetFull''"
definition TargetModelField :: string where "TargetModelField = ''target''"

subsection \<open>Labels and annotations\<close>

text \<open>The logger argument of the source is only handed on to \<^verbatim>\<open>MigrateTmpl\<close>.\<close>

definition addLabelsAndAnnotations ::
  "Env \<Rightarrow> Alert \<Rightarrow> string \<Rightarrow> AlertNotification list
     \<Rightarrow> (string \<rightharpoonup> string) \<times> (string \<rightharpoonup> string)"
where
  "addLabelsAndAnnotations env alert dashboardUID channels =
     (let tags = getTagsFromSettings env alert;
          lbls = fold (\<lambda>t m. m(fst t \<mapsto> snd t)) tags Map.empty;
          lbls = lbls(MigratedUseLegacyChannelsLabel env \<mapsto> ''true'');
          lbls = fold (\<lambda>c m. m(contactLabel env (channel_Name c) \<mapsto> ''true'')) channels lbls;
          annotations = Map.empty;
          annotations = annotations(DashboardUIDAnnotation env \<mapsto> dashboardUID);
          annotations = annotations(PanelIDAnnotation env \<mapsto> formatInt64 (alert_PanelID alert));
          annotations = annotations(MigratedAlertIdAnnotation env \<mapsto> formatInt64 (alert_ID alert));
          message = MigrateTmpl env (alert_Message alert);
          annotations = annotations(MigratedMessageAnnotation env \<mapsto> message)
      in (lbls, annotations))"

subsection \<open>Query repair\<close>

definition fixGraphiteReferencedSubQueries :: "RawMap \<Rightarrow> error + RawMap" where
  "fixGraphiteReferencedSubQueries queryData =
     (case lookup queryData TargetFullModelField of
        Some fullQuery \<Rightarrow>
          assign TargetModelField fullQuery (deleteKey TargetFullModelField queryData)
      | None \<Rightarrow> Inr queryData)"

definition isPrometheusQuery :: "RawMap \<Rightarrow> error + bool" where
  "isPrometheusQuery queryData =
     (case lookup queryData ''datasource'' of
        None \<Rightarrow> Inl MissingDatasourceField
      | Some ds \<Rightarrow>
          (case unmarshalDatasource ds of
             Inl err \<Rightarrow> Inl (ParseDatasource err)
           | Inr datasourceType \<Rightarrow>
               if datasourceType = '''' then Inl MissingTypeField
               else Inr (datasourceType = DS_PROMETHEUS)))"

text \<open>
  The two blocks \<^verbatim>\<open>var b bool; if raw, ok := queryData[k]; ok { json.Unmarshal(raw, &b) }\<close>:
  an absent key leaves the flag false.
\<close>

definition unmarshalFlag :: "RawMap \<Rightarrow> string \<Rightarrow> error + bool" where
  "unmarshalFlag queryData k =
     (case lookup queryData k of
        None \<Rightarrow> Inr False
      | Some raw \<Rightarrow> unmarshalBool raw False)"

definition fixPrometheusBothTypeQuery :: "Logger \<Rightarrow> RawMap \<Rightarrow> (error + RawMap) \<times> Logger" where
  "fixPrometheusBothTypeQuery l queryData =
     (case unmarshalFlag queryData ''instant'' of
        Inl err \<Rightarrow>
          (Inr queryData,
           if isPrometheusQuery queryData = Inr True
           then logAt LvlInfo l ''Failed to parse instant field on Prometheus query'' else l)
      | Inr instant \<Rightarrow>
          (case unmarshalFlag queryData ''range'' of
             Inl err \<Rightarrow>
               (Inr queryData,
                if isPrometheusQuery queryData = Inr True
                then logAt LvlInfo l ''Failed to parse range field on Prometheus query'' else l)
           | Inr rng \<Rightarrow>
               if \<not> instant \<or> \<not> rng then (Inr queryData, l)
               else
                 (case isPrometheusQuery queryData of
                    Inl err \<Rightarrow>
                      (Inr queryData,
                       logAt LvlInfo l
                         ''Unable to convert alert rule that resembles a Prometheus 'Both' type query to 'Range' '')
                  | Inr isPrometheus \<Rightarrow>
                      if \<not> isPrometheus then (Inr queryData, l)
                      else
                        (assign ''instant'' (JBool False) queryData,
                         logAt LvlWarn l
                           ''Prometheus 'Both' type queries are not supported in unified alerting. Converting to range query.''))))"

text \<open>The loop of \<^verbatim>\<open>migrateAlertRuleQueries\<close>, with \<open>result\<close> the slice built so far.\<close>

fun migrateQueriesFrom ::
  "Env \<Rightarrow> Logger \<Rightarrow> AlertQuery list \<Rightarrow> AlertQuery list \<Rightarrow> (error + AlertQuery list) \<times> Logger"
where
  "migrateQueriesFrom env l result [] = (Inr result, l)"
| "migrateQueriesFrom env l result (d # ds) =
     (if query_DatasourceUID d = expressionDatasourceUID env
      then migrateQueriesFrom env l (result @ [d]) ds
      else
        (case unmarshalMap (query_Model d) of
           Inl err \<Rightarrow> (Inl err, l)
         | Inr fixedData \<Rightarrow>
             (case fixGraphiteReferencedSubQueries (deleteKey ''hide'' fixedData) of
                Inl p \<Rightarrow> (Inl p, l)
              | Inr fixedData \<Rightarrow>
                  (case fixPrometheusBothTypeQuery l fixedData of
                     (Inl p, l') \<Rightarrow> (Inl p, l')
                   | (Inr fixedData, l') \<Rightarrow>
                       (case marshalMap fixedData of
                          Inl err \<Rightarrow> (Inl err, l')
                        | Inr updatedModel \<Rightarrow>
                            migrateQueriesFrom env l'
                              (result @ [d\<lparr>query_Model := updatedModel\<rparr>]) ds)))))"

definition migrateAlertRuleQueries ::
  "Env \<Rightarrow> Logger \<Rightarrow> AlertQuery list \<Rightarrow> (error + AlertQuery list) \<times> Logger"
where
  "migrateAlertRuleQueries env l data = migrateQueriesFrom env l [] data"

subsection \<open>Interval normalisation and state translation\<close>

definition ruleAdjustInterval :: "int64 \<Rightarrow> int64" where
  "ruleAdjustInterval freq =
     (let baseFreq = (10 :: int64) in
      if freq \<le>s baseFreq then 10
      else freq - int64_rem freq baseFreq)"

text \<open>A Go \<^verbatim>\<open>switch\<close> takes the first case that matches, top to bottom.\<close>

definition transNoData :: "Logger \<Rightarrow> string \<Rightarrow> NoDataState \<times> Logger" where
  "transNoData l s =
     (if s = NoDataSetOK then (OK, l)
      else if s = '''' \<or> s = NoDataSetNoData then (NoData, l)
      else if s = NoDataSetAlerting then (Alerting, l)
      else if s = NoDataKeepState then (NoData, l)
      else (NoData,
            logAt LvlWarn l ''Unable to translate execution of NoData state. Using default execution''))"

definition transExecErr :: "Logger \<Rightarrow> string \<Rightarrow> ExecutionErrorState \<times> Logger" where
  "transExecErr l s =
     (if s = '''' \<or> s = ExecutionErrorSetAlerting then (AlertingErrState, l)
      else if s = ExecutionErrorKeepState then (ErrorErrState, l)
      else if s = ExecutionErrorSetOk then (OkErrState, l)
      else (ErrorErrState,
            logAt LvlWarn l ''Unable to translate execution of Error state. Using default execution''))"

subsection \<open>Naming\<close>

text \<open>
  \<^verbatim>\<open>daName[:length]\<close> panics when \<^verbatim>\<open>length\<close> is negative; under the guard it cannot
  exceed \<^verbatim>\<open>len(daName)\<close>. \<^verbatim>\<open>len\<close> counts bytes.
\<close>

definition truncate_name :: "string \<Rightarrow> int \<Rightarrow> error + string" where
  "truncate_name daName len =
     (if int (length daName) > len
      then (if len < 0 then Inl (Panic ''slice bounds out of range'')
            else Inr (take (nat len) daName))
      else Inr daName)"

text \<open>\<^verbatim>\<open>time.Duration(interval) * time.Second\<close>: nanoseconds, in wrap-around \<^verbatim>\<open>int64\<close> arithmetic.\<close>

definition secondsToDuration :: "int64 \<Rightarrow> int64" where
  "secondsToDuration interval = interval * 1000000000"

definition groupName :: "Env \<Rightarrow> int64 \<Rightarrow> string \<Rightarrow> error + string" where
  "groupName env interval dashboardTitle =
     (let duration = secondsToDuration interval;
          panelSuffix = '' - '' @ durationString env duration
      in case truncate_name dashboardTitle
                (AlertRuleMaxRuleGroupNameLength env - int (length panelSuffix)) of
           Inl p \<Rightarrow> Inl p
         | Inr truncatedDashboard \<Rightarrow> Inr (truncatedDashboard @ panelSuffix))"

subsection \<open>Notification channels\<close>

fun extractChannelsFrom ::
  "Env \<Rightarrow> Logger \<Rightarrow> AlertNotification list \<Rightarrow> notificationKey list
     \<Rightarrow> AlertNotification list \<times> Logger"
where
  "extractChannelsFrom env l channels [] = (channels, l)"
| "extractChannelsFrom env l channels (key # keys) =
     (case (if 0 <s key_ID key then getChannelByID env (key_ID key) else None) of
        Some c \<Rightarrow> extractChannelsFrom env l (channels @ [c]) keys
      | None \<Rightarrow>
          (case (if key_UID key \<noteq> '''' then getChannelByUID env (key_UID key) else None) of
             Some c \<Rightarrow> extractChannelsFrom env l (channels @ [c]) keys
           | None \<Rightarrow>
               extractChannelsFrom env
                 (logAt LvlWarn l ''Failed to get alert notification, skipping'') channels keys))"

definition extractChannels ::
  "Env \<Rightarrow> Logger \<Rightarrow> dashAlertSettings \<Rightarrow> AlertNotification list \<times> Logger"
where
  "extractChannels env l parsedSettings =
     extractChannelsFrom env l [] (settings_Notifications parsedSettings)"

subsection \<open>Silences\<close>

text \<open>
  Modelled from the spec: \<^verbatim>\<open>addErrorSilence\<close> and \<^verbatim>\<open>addNoDataSilence\<close> are methods
  of \<^verbatim>\<open>OrgMigration\<close> defined outside \<^verbatim>\<open>alert_rule.go\<close>. By sections 4.5 and 6 of the
  specification each call produces one silence-creation request that carries a kind tag
  (error or no-data) and a matcher bound to the identifier of the rule it is given;
  creating the silence may fail, which is reported to the caller.
\<close>

definition addSilence ::
  "Env \<Rightarrow> SilenceKind \<Rightarrow> OrgMigration \<Rightarrow> AlertRule \<Rightarrow> error option \<times> OrgMigration"
where
  "addSilence env kind om rule =
     (silenceStoreError env kind rule,
      om\<lparr>om_silences :=
           om_silences om @ [\<lparr>silence_Kind = kind, silence_RuleUID = rule_UID rule\<rparr>]\<rparr>)"

definition addErrorSilence ::
  "Env \<Rightarrow> OrgMigration \<Rightarrow> AlertRule \<Rightarrow> error option \<times> OrgMigration"
where
  "addErrorSilence env om rule = addSilence env ErrorSilence om rule"

definition addNoDataSilence ::
  "Env \<Rightarrow> OrgMigration \<Rightarrow> AlertRule \<Rightarrow> error option \<times> OrgMigration"
where
  "addNoDataSilence env om rule = addSilence env NoDataSilence om rule"

subsection \<open>Assembling the rule\<close>

definition migrateAlert ::
  "Env \<Rightarrow> OrgMigration \<Rightarrow> Logger \<Rightarrow> Alert \<Rightarrow> DashboardUpgradeInfo
     \<Rightarrow> (error + AlertRule) \<times> OrgMigration \<times> Logger"
where
  "migrateAlert env om l alert info =
     (let l = logAt LvlDebug l ''Migrating alert rule to Unified Alerting'' in
      case marshalSettings env (alert_Settings alert) of
        Inl err \<Rightarrow> (Inl (wrapError ''get settings'' err), om, l)
      | Inr rawSettings \<Rightarrow>
      (case unmarshalSettings env rawSettings of
        Inl err \<Rightarrow> (Inl (wrapError ''parse settings'' err), om, l)
      | Inr parsedSettings \<Rightarrow>
      (case transConditions env parsedSettings (alert_OrgID alert) of
        Inl err \<Rightarrow> (Inl (wrapError ''transform conditions'' err), om, l)
      | Inr cond \<Rightarrow>
      (case extractChannels env l parsedSettings of (channels, l) \<Rightarrow>
      (case addLabelsAndAnnotations env alert (info_DashboardUID info) channels of
         (lbls, annotations) \<Rightarrow>
      (case migrateAlertRuleQueries env l (cond_Data cond) of
        (Inl err, l) \<Rightarrow> (Inl (wrapError ''queries'' err), om, l)
      | (Inr data, l) \<Rightarrow>
      (let isPaused = (alert_State alert = ''paused'') in
       case deduplicateTitle env (info_NewFolderUID info) (alert_Name alert) of
        Inl err \<Rightarrow> (Inl err, om, l)
      | Inr name \<Rightarrow>
      (let l = (if name \<noteq> alert_Name alert
                then logAt LvlInfo l
                  ''Alert rule title modified to be unique within the folder and fit within the maximum length''
                else l);
           dashUID = info_DashboardUID info;
           uid = generateShortUID env
       in case groupName env (ruleAdjustInterval (alert_Frequency alert)) (info_DashboardName info) of
        Inl p \<Rightarrow> (Inl p, om, l)
      | Inr ruleGroup \<Rightarrow>
      (case transNoData l (settings_NoDataState parsedSettings) of (noDataState, l) \<Rightarrow>
      (case transExecErr l (settings_ExecutionErrorState parsedSettings) of (execErrState, l) \<Rightarrow>
      (let ar = \<lparr>rule_OrgID = alert_OrgID alert,
                 rule_Title = name,
                 rule_UID = uid,
                 rule_Condition = cond_Condition cond,
                 rule_Data = data,
                 rule_IntervalSeconds = ruleAdjustInterval (alert_Frequency alert),
                 rule_Version = 1,
                 rule_NamespaceUID = info_NewFolderUID info,
                 rule_DashboardUID = Some dashUID,
                 rule_PanelID = Some (alert_PanelID alert),
                 rule_RuleGroup = ruleGroup,
                 rule_For = alert_For alert,
                 rule_Updated = timeNowUTC env,
                 rule_Annotations = annotations,
                 rule_Labels = lbls,
                 rule_RuleGroupIndex = 1,
                 rule_IsPaused = isPaused,
                 rule_NoDataState = noDataState,
                 rule_ExecErrState = execErrState\<rparr>;
           nv = getLabelForSilenceMatching env (rule_UID ar);
           ar = ar\<lparr>rule_Labels := (rule_Labels ar)(fst nv \<mapsto> snd nv)\<rparr>;
           om = (if settings_ExecutionErrorState parsedSettings = ExecutionErrorKeepState
                 then (case addErrorSilence env om ar of
                         (Some err, om') \<Rightarrow>
                           om'\<lparr>om_log := logAt LvlError (om_log om')
                                  ''Alert migration error: failed to create silence for Error''\<rparr>
                       | (None, om') \<Rightarrow> om')
                 else om);
           om = (if settings_NoDataState parsedSettings = NoDataKeepState
                 then (case addNoDataSilence env om ar of
                         (Some err, om') \<Rightarrow>
                           om'\<lparr>om_log := logAt LvlError (om_log om')
                                  ''Alert migration error: failed to create silence for NoData''\<rparr>
                       | (None, om') \<Rightarrow> om')
                 else om)
       in (Inr ar, om, l))))))))))))"

subsection \<open>Notions used to state the properties\<close>

text \<open>The key-value mapping a JSON object denotes: of duplicate members the last counts.\<close>

definition objectMapping :: "(string \<times> json) list \<Rightarrow> string \<rightharpoonup> json" where
  "objectMapping kvs = map_of (rev kvs)"

definition isJSONObject :: "RawMessage \<Rightarrow> bool" where
  "isJSONObject raw = (case raw of Wellformed (JObject kvs) \<Rightarrow> True | _ \<Rightarrow> False)"

text \<open>The models the decoder accepts for a map: a JSON object or the literal \<^verbatim>\<open>null\<close>.\<close>

definition decodesToMap :: "RawMessage \<Rightarrow> bool" where
  "decodesToMap raw =
     (case raw of Wellformed JNull \<Rightarrow> True | Wellformed (JObject kvs) \<Rightarrow> True | _ \<Rightarrow> False)"

definition distinctKeys :: "RawMap \<Rightarrow> bool" where
  "distinctKeys m = (case m of NilMap \<Rightarrow> True | GoMap al \<Rightarrow> distinct (map fst al))"

text \<open>
  The body of the loop on one model, without the logger, and the loop as a structural
  recursion; both are shown below to agree with \<open>migrateQueriesFrom\<close>.
\<close>

definition repairModel :: "RawMessage \<Rightarrow> error + RawMessage" where
  "repairModel raw =
     (case unmarshalMap raw of
        Inl err \<Rightarrow> Inl err
      | Inr m0 \<Rightarrow>
          (case fixGraphiteReferencedSubQueries (deleteKey ''hide'' m0) of
             Inl p \<Rightarrow> Inl p
           | Inr m1 \<Rightarrow>
               (case fst (fixPrometheusBothTypeQuery [] m1) of
                  Inl p \<Rightarrow> Inl p
                | Inr m2 \<Rightarrow> marshalMap m2)))"

fun repairAll :: "Env \<Rightarrow> AlertQuery list \<Rightarrow> error + AlertQuery list" where
  "repairAll env [] = Inr []"
| "repairAll env (d # ds) =
     (if query_DatasourceUID d = expressionDatasourceUID env
      then map_sum id (Cons d) (repairAll env ds)
      else
        (case repairModel (query_Model d) of
           Inl err \<Rightarrow> Inl err
         | Inr m \<Rightarrow> map_sum id (Cons (d\<lparr>query_Model := m\<rparr>)) (repairAll env ds)))"

definition repairedQuery :: "Env \<Rightarrow> AlertQuery \<Rightarrow> AlertQuery \<Rightarrow> bool" where
  "repairedQuery env d r \<longleftrightarrow>
     (if query_DatasourceUID d = expressionDatasourceUID env then r = d
      else repairModel (query_Model d) = Inr (query_Model r) \<and>
           r = d\<lparr>query_Model := query_Model r\<rparr>)"

text \<open>The silence requests one migrated rule calls for, in the order the code issues them.\<close>

definition silencesFor :: "dashAlertSettings \<Rightarrow> string \<Rightarrow> SilenceRequest list" where
  "silencesFor parsedSettings uid =
     (if settings_ExecutionErrorState parsedSettings = ExecutionErrorKeepState
      then [\<lparr>silence_Kind = ErrorSilence, silence_RuleUID = uid\<rparr>] else []) @
     (if settings_NoDataState parsedSettings = NoDataKeepState
      then [\<lparr>silence_Kind = NoDataSilence, silence_RuleUID = uid\<rparr>] else [])"

subsection \<open>Sample inputs\<close>

text \<open>Concrete inputs on which the model is evaluated below.\<close>

definition sampleSettings :: dashAlertSettings where
  "sampleSettings =
     \<lparr>settings_NoDataState = ''no_data'', settings_ExecutionErrorState = ''alerting'',
      settings_Conditions = [], settings_Notifications = []\<rparr>"

definition sampleEnv :: Env where
  "sampleEnv =
     \<lparr>expressionDatasourceUID = ''__expr__'',
      AlertRuleMaxRuleGroupNameLength = 190,
      AlertDefinitionMaxTitleLength = 190,
      MigratedUseLegacyChannelsLabel = ''__legacy_use_channels__'',
      DashboardUIDAnnotation = ''__dashboardUid__'',
      PanelIDAnnotation = ''__panelId__'',
      MigratedAlertIdAnnotation = ''__alertId__'',
      MigratedMessageAnnotation = ''message'',
      durationString =
        (\<lambda>d. if d = 60000000000 then ''1m'' else if d = 20000000000 then ''20s'' else ''10s''),
      marshalSettings = (\<lambda>j. Inr ''{}''),
      unmarshalSettings = (\<lambda>s. Inr sampleSettings),
      transConditions = (\<lambda>s orgID. Inr \<lparr>cond_Condition = ''B'', cond_Data = []\<rparr>),
      getChannelByID = (\<lambda>i. None),
      getChannelByUID = (\<lambda>u. None),
      getTagsFromSettings = (\<lambda>a. []),
      contactLabel = (\<lambda>n. ''__contacts_'' @ n @ ''__''),
      MigrateTmpl = (\<lambda>m. m),
      deduplicateTitle = (\<lambda>folder t. Inr t),
      generateShortUID = ''uid1'',
      timeNowUTC = 0,
      getLabelForSilenceMatching = (\<lambda>uid. (''rule_uid'', uid)),
      silenceStoreError = (\<lambda>k r. None)\<rparr>"

definition keepStateEnv :: Env where
  "keepStateEnv =
     sampleEnv\<lparr>unmarshalSettings :=
       (\<lambda>s. Inr (sampleSettings\<lparr>settings_ExecutionErrorState := ''keep_state''\<rparr>))\<rparr>"

definition shortNamesEnv :: Env where
  "shortNamesEnv = sampleEnv\<lparr>AlertRuleMaxRuleGroupNameLength := 20\<rparr>"

definition sampleAlert :: Alert where
  "sampleAlert =
     \<lparr>alert_ID = 7, alert_OrgID = 1, alert_PanelID = 3, alert_Name = ''CPU High'',
      alert_Message = '''', alert_State = ''paused'', alert_Frequency = 23, alert_For = 0,
      alert_Settings = JObject []\<rparr>"

definition sampleInfo :: DashboardUpgradeInfo where
  "sampleInfo =
     \<lparr>info_DashboardUID = '''', info_DashboardName = ''Node overview'',
      info_NewFolderUID = ''folder1''\<rparr>"

definition emptyMigration :: OrgMigration where
  "emptyMigration = \<lparr>om_silences = [], om_log = []\<rparr>"

definition sampleQuery :: "string \<Rightarrow> RawMessage \<Rightarrow> AlertQuery" where
  "sampleQuery uid model =
     \<lparr>query_RefID = ''A'', query_QueryType = '''', query_RelativeTimeRange = (600, 0),
      query_DatasourceUID = uid, query_Model = model\<rparr>"

definition bothPrometheus :: "(string \<times> json) list" where
  "bothPrometheus =
     [(''instant'', JBool True), (''range'', JBool True),
      (''datasource'', JObject [(''type'', JString ''prometheus'')])]"

definition bothGraphite :: "(string \<times> json) list" where
  "bothGraphite =
     [(''instant'', JBool True), (''range'', JBool True),
      (''datasource'', JObject [(''type'', JString ''graphite'')])]"

definition referencedGraphite :: "(string \<times> json) list" where
  "referencedGraphite =
     [(''refId'', JString ''B''), (''target'', JString ''sumSeries(#A)''),
      (''targetFull'', JString ''sumSeries(app.cpu.*)'')]"

definition acceptedModel :: "(string \<times> json) list" where
  "acceptedModel =
     [(''refId'', JString ''A''), (''expr'', JString ''up''), (''range'', JBool True),
      (''datasource'', JObject [(''type'', JString ''prometheus'')])]"

section \<open>Interval normalisation\<close>

lemma sint_int64_of_int:
  "- (2 ^ 63) \<le> k \<Longrightarrow> k < 2 ^ 63 \<Longrightarrow> sint (word_of_int k :: int64) = k"
  by (simp add: sint_sbintrunc' signed_take_bit_int_eq_self)

lemma sint_ruleAdjustInterval:
  "sint (ruleAdjustInterval freq) =
     (if sint freq \<le> 10 then 10 else sint freq - sint freq mod 10)"
proof (cases "sint freq \<le> 10")
  case True
  then show ?thesis by (simp add: ruleAdjustInterval_def word_sle_eq)
next
  case False
  then have pos: "10 < sint freq" by simp
  have ub: "sint freq < 2 ^ 63"
    using sint_lt [of freq] by simp
  have sm: "sint freq smod 10 = sint freq mod 10"
    using pos by (simp add: signed_modulo_int_def sgn_if)
  have m: "0 \<le> sint freq mod 10" "sint freq mod 10 < 10" by simp_all
  have r: "sint (int64_rem freq 10) = sint freq mod 10"
    unfolding int64_rem_def using m by (simp add: sm sint_int64_of_int)
  have "freq - int64_rem freq 10 = word_of_int (sint freq - sint (int64_rem freq 10))"
    by simp
  then have "freq - int64_rem freq 10 = word_of_int (sint freq - sint freq mod 10)"
    by (simp only: r)
  moreover have "sint (word_of_int (sint freq - sint freq mod 10) :: int64)
                   = sint freq - sint freq mod 10"
    using m pos ub by (intro sint_int64_of_int) simp_all
  ultimately have "sint (freq - int64_rem freq 10) = sint freq - sint freq mod 10"
    by simp
  then show ?thesis using False by (simp add: ruleAdjustInterval_def word_sle_eq)
qed

lemma ruleAdjustInterval_table:
  "map ruleAdjustInterval [5, 10, 15, 23, 100] = [10, 10, 10, 20, 100]"
  by (simp add: ruleAdjustInterval_def int64_rem_def word_sle_eq signed_modulo_int_def)

lemma ruleAdjustInterval_23: "ruleAdjustInterval 23 = 20"
  by (simp add: ruleAdjustInterval_def int64_rem_def word_sle_eq signed_modulo_int_def)

text \<open>
  C5, as the specification states it, fails at the input 23: the code rounds 23 down to
  the multiple 20 of the base, it does not collapse it to 10.
\<close>

theorem C5_counterexample: "ruleAdjustInterval 23 \<noteq> 10"
  by (simp add: ruleAdjustInterval_def int64_rem_def word_sle_eq signed_modulo_int_def)

text \<open>
  C5 (amended): \<open>ruleAdjustInterval\<close> returns the base 10 for every frequency at or below
  10, and for a frequency above 10 the largest multiple of 10 that does not exceed it;
  for the inputs 5, 10, 15, 23 and 100 it returns 10, 10, 10, 20 and 100.
\<close>

theorem C5_ruleAdjustInterval_rounds_down:
  "(sint freq \<le> 10 \<longrightarrow> sint (ruleAdjustInterval freq) = 10) \<and>
   (10 < sint freq \<longrightarrow>
      sint (ruleAdjustInterval freq) mod 10 = 0 \<and>
      sint (ruleAdjustInterval freq) \<le> sint freq \<and>
      sint freq < sint (ruleAdjustInterval freq) + 10) \<and>
   map ruleAdjustInterval [5, 10, 15, 23, 100] = [10, 10, 10, 20, 100]"
proof -
  have "0 \<le> sint freq mod 10" "sint freq mod 10 < 10" by simp_all
  then show ?thesis
    unfolding sint_ruleAdjustInterval ruleAdjustInterval_table
    by (auto simp: minus_mod_eq_mult_div)
qed

theorem C5_ruleAdjustInterval_rounds_down_witness:
  "sint (ruleAdjustInterval 37) = 30 \<and> sint (ruleAdjustInterval (- 4)) = 10"
proof -
  have a: "sint (37 :: int64) = 37" and b: "sint (- 4 :: int64) = - 4" by simp_all
  have "sint (ruleAdjustInterval 37) mod 10 = 0 \<and> sint (ruleAdjustInterval 37) \<le> 37
        \<and> 37 < sint (ruleAdjustInterval 37) + 10"
    using C5_ruleAdjustInterval_rounds_down [of 37] by (simp add: a)
  moreover have "sint (ruleAdjustInterval (- 4)) = 10"
    using C5_ruleAdjustInterval_rounds_down [of "- 4"] by (simp add: b)
  ultimately show ?thesis by presburger
qed

text \<open>
  C10: for every \<^verbatim>\<open>int64\<close> frequency, zero and negative values included,
  \<open>ruleAdjustInterval\<close> returns a value that is at least 10 and an exact multiple of 10.
\<close>

theorem C10_ruleAdjustInterval_positive_multiple:
  "10 \<le> sint (ruleAdjustInterval freq) \<and> sint (ruleAdjustInterval freq) mod 10 = 0"
  unfolding sint_ruleAdjustInterval by (auto simp: minus_mod_eq_mult_div)

section \<open>State translation\<close>

text \<open>
  C1: both translation functions return a state for every option string, following the
  tables: \<open>transNoData\<close> sends "ok" to OK, "" and "no_data" to NoData, "alerting" to
  Alerting, "keep_state" to NoData and every other string to NoData; \<open>transExecErr\<close> sends
  "" and "alerting" to AlertingErrState, "keep_state" to ErrorErrState, "ok" to OkErrState
  and every other string to ErrorErrState. Only the fallback writes a warning.
\<close>

theorem C1_state_translation_tables:
  "fst (transNoData l s) =
     (if s = ''ok'' then OK
      else if s = '''' \<or> s = ''no_data'' then NoData
      else if s = ''alerting'' then Alerting
      else if s = ''keep_state'' then NoData
      else NoData) \<and>
   fst (transExecErr l s) =
     (if s = '''' \<or> s = ''alerting'' then AlertingErrState
      else if s = ''keep_state'' then ErrorErrState
      else if s = ''ok'' then OkErrState
      else ErrorErrState) \<and>
   (snd (transNoData l s) \<noteq> l \<longleftrightarrow> s \<notin> {''ok'', '''', ''no_data'', ''alerting'', ''keep_state''}) \<and>
   (snd (transExecErr l s) \<noteq> l \<longleftrightarrow> s \<notin> {'''', ''alerting'', ''keep_state'', ''ok''})"
  by (simp add: transNoData_def transExecErr_def logAt_def NoDataSetOK_def NoDataSetNoData_def
      NoDataSetAlerting_def NoDataKeepState_def ExecutionErrorSetAlerting_def
      ExecutionErrorKeepState_def ExecutionErrorSetOk_def)

theorem C1_state_translation_tables_witness:
  "map (\<lambda>s. fst (transNoData [] s)) [''ok'', '''', ''no_data'', ''alerting'', ''keep_state'', ''unknown'']
     = [OK, NoData, NoData, Alerting, NoData, NoData] \<and>
   map (\<lambda>s. fst (transExecErr [] s)) ['''', ''alerting'', ''keep_state'', ''ok'', ''unknown'']
     = [AlertingErrState, AlertingErrState, ErrorErrState, OkErrState, ErrorErrState] \<and>
   snd (transNoData [] ''unknown'') \<noteq> [] \<and> snd (transExecErr [] ''unknown'') \<noteq> []"
  using C1_state_translation_tables [of "[]" "''ok''"]
    C1_state_translation_tables [of "[]" "''''"]
    C1_state_translation_tables [of "[]" "''no_data''"]
    C1_state_translation_tables [of "[]" "''alerting''"]
    C1_state_translation_tables [of "[]" "''keep_state''"]
    C1_state_translation_tables [of "[]" "''unknown''"]
  by simp

section \<open>Maps of raw JSON values\<close>

lemma lookup_deleteKey: "lookup (deleteKey k m) = (lookup m)(k := None)"
  by (cases m) (auto simp: fun_eq_iff lookup_def deleteKey_def delete_conv')

lemma lookup_assign: "assign k v m = Inr m' \<Longrightarrow> lookup m' = (lookup m)(k \<mapsto> v)"
  by (cases m) (auto simp: lookup_def assign_def update_conv')

lemma assign_defined: "lookup m k' = Some w \<Longrightarrow> \<exists>m'. assign k v m = Inr m'"
  by (cases m) (simp_all add: lookup_def assign_def)

lemma assign_deleteKey_defined:
  "lookup m k' = Some w \<Longrightarrow> \<exists>m'. assign k v (deleteKey k'' m) = Inr m'"
  by (cases m) (simp_all add: lookup_def assign_def deleteKey_def)

lemma map_of_fold_update:
  "map_of (fold (\<lambda>(k, v). AList.update k v) kvs acc) = map_of acc ++ map_of (rev kvs)"
proof (induction kvs arbitrary: acc)
  case Nil
  show ?case by simp
next
  case (Cons kv kvs)
  obtain k v where kv: "kv = (k, v)" by (cases kv)
  show ?case
    by (rule ext) (auto simp: kv Cons.IH update_conv' map_add_def split: option.splits)
qed

lemma distinct_fold_update:
  "distinct (map fst acc) \<Longrightarrow> distinct (map fst (fold (\<lambda>(k, v). AList.update k v) kvs acc))"
  by (induction kvs arbitrary: acc) (auto simp: distinct_update)

lemma map_of_rev_distinct: "distinct (map fst xs) \<Longrightarrow> map_of (rev xs) = map_of xs"
  by (subst map_of_inject_set) (simp_all add: rev_map [symmetric])

lemma distinct_keys_insort_key:
  "distinct (map fst (insort_key fst x xs)) \<longleftrightarrow> fst x \<notin> fst ` set xs \<and> distinct (map fst xs)"
  by (induction xs) (auto simp: set_insort_key)

lemma distinct_keys_sort_key: "distinct (map fst (sort_key fst al)) = distinct (map fst al)"
  by (induction al) (simp_all add: distinct_keys_insort_key)

lemma objectMapping_sort_key:
  "distinct (map fst al) \<Longrightarrow> objectMapping (sort_key fst al) = map_of al"
proof -
  assume d: "distinct (map fst al)"
  then have ds: "distinct (map fst (sort_key fst al))" by (simp add: distinct_keys_sort_key)
  have "map_of (rev (sort_key fst al)) = map_of (sort_key fst al)"
    by (rule map_of_rev_distinct [OF ds])
  also have "\<dots> = map_of al"
    using d ds by (simp add: map_of_inject_set)
  finally show ?thesis by (simp add: objectMapping_def)
qed

lemma distinctKeys_deleteKey: "distinctKeys m \<Longrightarrow> distinctKeys (deleteKey k m)"
  by (cases m) (simp_all add: distinctKeys_def deleteKey_def distinct_delete)

lemma distinctKeys_unmarshalMap: "unmarshalMap raw = Inr m \<Longrightarrow> distinctKeys m"
  by (auto simp: unmarshalMap_def distinctKeys_def distinct_fold_update
      split: RawMessage.splits json.splits)

lemma lookup_unmarshalMap_object:
  "unmarshalMap (Wellformed (JObject kvs)) = Inr m \<Longrightarrow> lookup m = objectMapping kvs"
  by (auto simp: unmarshalMap_def lookup_def objectMapping_def map_of_fold_update fun_eq_iff)

lemma marshalMap_object:
  "distinctKeys m \<Longrightarrow> m \<noteq> NilMap \<Longrightarrow>
   \<exists>kvs. marshalMap m = Inr (Wellformed (JObject kvs)) \<and> objectMapping kvs = lookup m"
  by (cases m)
     (auto simp: marshalMap_def distinctKeys_def objectMapping_sort_key lookup_def fun_eq_iff)

lemma unmarshalFlag_True: "unmarshalFlag q k = Inr True \<longleftrightarrow> lookup q k = Some (JBool True)"
  by (auto simp: unmarshalFlag_def unmarshalBool_def split: option.splits json.splits)

section \<open>The Graphite repair\<close>

text \<open>
  C4: for a query model that has both the raw Graphite target field and the fully
  expanded one, \<open>fixGraphiteReferencedSubQueries\<close> returns a model in which the raw field
  holds the expanded value, the expanded field is gone, and every other key is as before.
\<close>

theorem C4_fixGraphiteReferencedSubQueries:
  assumes raw: "lookup queryData TargetModelField = Some rawTarget"
    and full: "lookup queryData TargetFullModelField = Some fullQuery"
  shows "\<exists>fixed. fixGraphiteReferencedSubQueries queryData = Inr fixed \<and>
           lookup fixed TargetModelField = Some fullQuery \<and>
           lookup fixed TargetFullModelField = None \<and>
           (\<forall>k. k \<noteq> TargetModelField \<and> k \<noteq> TargetFullModelField \<longrightarrow>
                lookup fixed k = lookup queryData k)"
proof -
  obtain fixed where a:
    "assign TargetModelField fullQuery (deleteKey TargetFullModelField queryData) = Inr fixed"
    using assign_deleteKey_defined [OF full] by blast
  have l: "lookup fixed =
             ((lookup queryData)(TargetFullModelField := None))(TargetModelField \<mapsto> fullQuery)"
    using lookup_assign [OF a] by (simp add: lookup_deleteKey)
  have ne: "TargetModelField \<noteq> TargetFullModelField"
    by (simp add: TargetModelField_def TargetFullModelField_def)
  have "fixGraphiteReferencedSubQueries queryData = Inr fixed"
    by (simp add: fixGraphiteReferencedSubQueries_def full a)
  then show ?thesis using l ne by auto
qed

theorem C4_fixGraphiteReferencedSubQueries_witness:
  "\<exists>fixed. fixGraphiteReferencedSubQueries (GoMap referencedGraphite) = Inr fixed \<and>
     lookup fixed ''target'' = Some (JString ''sumSeries(app.cpu.*)'') \<and>
     lookup fixed ''targetFull'' = None \<and>
     lookup fixed ''refId'' = Some (JString ''B'')"
proof -
  have r: "lookup (GoMap referencedGraphite) TargetModelField = Some (JString ''sumSeries(#A)'')"
    by (simp add: lookup_def referencedGraphite_def TargetModelField_def)
  have f: "lookup (GoMap referencedGraphite) TargetFullModelField
             = Some (JString ''sumSeries(app.cpu.*)'')"
    by (simp add: lookup_def referencedGraphite_def TargetFullModelField_def)
  have k: "lookup (GoMap referencedGraphite) ''refId'' = Some (JString ''B'')"
    by (simp add: lookup_def referencedGraphite_def)
  from C4_fixGraphiteReferencedSubQueries [OF r f] obtain fixed where
    "fixGraphiteReferencedSubQueries (GoMap referencedGraphite) = Inr fixed"
    "lookup fixed TargetModelField = Some (JString ''sumSeries(app.cpu.*)'')"
    "lookup fixed TargetFullModelField = None"
    "\<forall>k. k \<noteq> TargetModelField \<and> k \<noteq> TargetFullModelField \<longrightarrow>
         lookup fixed k = lookup (GoMap referencedGraphite) k"
    by blast
  then show ?thesis
    using k by (auto simp: TargetModelField_def TargetFullModelField_def)
qed

section \<open>The Prometheus repair\<close>

lemma isPrometheusQuery_True_iff:
  "isPrometheusQuery q = Inr True \<longleftrightarrow>
     (\<exists>ds. lookup q ''datasource'' = Some ds \<and> unmarshalDatasource ds = Inr DS_PROMETHEUS)"
  by (auto simp: isPrometheusQuery_def DS_PROMETHEUS_def split: option.splits sum.splits)

lemma fixPrometheus_unchanged:
  "\<not> (unmarshalFlag q ''instant'' = Inr True \<and> unmarshalFlag q ''range'' = Inr True \<and>
      isPrometheusQuery q = Inr True) \<Longrightarrow>
   fst (fixPrometheusBothTypeQuery l q) = Inr q"
  by (auto simp: fixPrometheusBothTypeQuery_def split: sum.splits)

text \<open>
  C3: for a query model whose "instant" and "range" fields both decode to true,
  \<open>fixPrometheusBothTypeQuery\<close> sets "instant" to false and leaves "range" (and every
  other key) as it is when the type decoded from the "datasource" field is the Prometheus
  type; when the "datasource" field is absent, or its type does not decode, is empty, or
  is "graphite", the model is returned unchanged.
\<close>

theorem C3_fixPrometheusBothTypeQuery:
  assumes inst: "unmarshalFlag queryData ''instant'' = Inr True"
    and rng: "unmarshalFlag queryData ''range'' = Inr True"
  shows "(\<forall>ds. lookup queryData ''datasource'' = Some ds \<and>
              unmarshalDatasource ds = Inr DS_PROMETHEUS \<longrightarrow>
            (\<exists>fixed. fst (fixPrometheusBothTypeQuery l queryData) = Inr fixed \<and>
               lookup fixed = (lookup queryData)(''instant'' \<mapsto> JBool False) \<and>
               unmarshalFlag fixed ''instant'' = Inr False \<and>
               unmarshalFlag fixed ''range'' = Inr True)) \<and>
         (lookup queryData ''datasource'' = None \<or>
          (\<exists>ds. lookup queryData ''datasource'' = Some ds \<and>
             (isl (unmarshalDatasource ds) \<or> unmarshalDatasource ds = Inr '''' \<or>
              unmarshalDatasource ds = Inr ''graphite'')) \<longrightarrow>
            fst (fixPrometheusBothTypeQuery l queryData) = Inr queryData)"
proof (intro conjI allI impI)
  fix ds
  assume h: "lookup queryData ''datasource'' = Some ds \<and>
             unmarshalDatasource ds = Inr DS_PROMETHEUS"
  then have p: "isPrometheusQuery queryData = Inr True"
    by (simp add: isPrometheusQuery_def DS_PROMETHEUS_def)
  from inst have li: "lookup queryData ''instant'' = Some (JBool True)"
    by (simp add: unmarshalFlag_True)
  obtain fixed where a: "assign ''instant'' (JBool False) queryData = Inr fixed"
    using assign_defined [OF li] by blast
  have f: "fst (fixPrometheusBothTypeQuery l queryData) = Inr fixed"
    by (simp add: fixPrometheusBothTypeQuery_def inst rng p a)
  have lk: "lookup fixed = (lookup queryData)(''instant'' \<mapsto> JBool False)"
    by (rule lookup_assign [OF a])
  have r: "lookup queryData ''range'' = Some (JBool True)"
    using rng by (simp add: unmarshalFlag_True)
  have "unmarshalFlag fixed ''instant'' = Inr False" "unmarshalFlag fixed ''range'' = Inr True"
    using r by (simp_all add: unmarshalFlag_def lk unmarshalBool_def)
  with f lk show "\<exists>fixed. fst (fixPrometheusBothTypeQuery l queryData) = Inr fixed \<and>
               lookup fixed = (lookup queryData)(''instant'' \<mapsto> JBool False) \<and>
               unmarshalFlag fixed ''instant'' = Inr False \<and>
               unmarshalFlag fixed ''range'' = Inr True" by blast
next
  assume "lookup queryData ''datasource'' = None \<or>
          (\<exists>ds. lookup queryData ''datasource'' = Some ds \<and>
             (isl (unmarshalDatasource ds) \<or> unmarshalDatasource ds = Inr '''' \<or>
              unmarshalDatasource ds = Inr ''graphite''))"
  then have "isPrometheusQuery queryData \<noteq> Inr True"
    by (auto simp: isPrometheusQuery_def DS_PROMETHEUS_def split: sum.splits)
  then show "fst (fixPrometheusBothTypeQuery l queryData) = Inr queryData"
    by (auto simp: fixPrometheusBothTypeQuery_def inst rng split: sum.splits)
qed

theorem C3_fixPrometheusBothTypeQuery_witness:
  "(\<exists>fixed. fst (fixPrometheusBothTypeQuery [] (GoMap bothPrometheus)) = Inr fixed \<and>
      lookup fixed ''instant'' = Some (JBool False) \<and>
      lookup fixed ''range'' = Some (JBool True)) \<and>
   fst (fixPrometheusBothTypeQuery [] (GoMap bothGraphite)) = Inr (GoMap bothGraphite)"
proof -
  have pi: "unmarshalFlag (GoMap bothPrometheus) ''instant'' = Inr True"
    and pr: "unmarshalFlag (GoMap bothPrometheus) ''range'' = Inr True"
    and gi: "unmarshalFlag (GoMap bothGraphite) ''instant'' = Inr True"
    and gr: "unmarshalFlag (GoMap bothGraphite) ''range'' = Inr True"
    by (simp_all add: unmarshalFlag_def unmarshalBool_def lookup_def bothPrometheus_def
        bothGraphite_def)
  have pd: "lookup (GoMap bothPrometheus) ''datasource''
              = Some (JObject [(''type'', JString ''prometheus'')]) \<and>
            unmarshalDatasource (JObject [(''type'', JString ''prometheus'')]) = Inr DS_PROMETHEUS"
    by (simp add: lookup_def bothPrometheus_def unmarshalDatasource_def storeTypeField_def
        DS_PROMETHEUS_def)
  have gd: "lookup (GoMap bothGraphite) ''datasource''
              = Some (JObject [(''type'', JString ''graphite'')]) \<and>
            unmarshalDatasource (JObject [(''type'', JString ''graphite'')]) = Inr ''graphite''"
    by (simp add: lookup_def bothGraphite_def unmarshalDatasource_def storeTypeField_def)
  have pl: "lookup (GoMap bothPrometheus) ''range'' = Some (JBool True)"
    by (simp add: lookup_def bothPrometheus_def)
  from C3_fixPrometheusBothTypeQuery [OF pi pr, of "[]"] pd
  obtain fixed where
    "fst (fixPrometheusBothTypeQuery [] (GoMap bothPrometheus)) = Inr fixed"
    "lookup fixed = (lookup (GoMap bothPrometheus))(''instant'' \<mapsto> JBool False)"
    by blast
  then have A: "\<exists>fixed. fst (fixPrometheusBothTypeQuery [] (GoMap bothPrometheus)) = Inr fixed \<and>
      lookup fixed ''instant'' = Some (JBool False) \<and>
      lookup fixed ''range'' = Some (JBool True)"
    using pl by auto
  from C3_fixPrometheusBothTypeQuery [OF gi gr, of "[]"] gd
  have B: "fst (fixPrometheusBothTypeQuery [] (GoMap bothGraphite)) = Inr (GoMap bothGraphite)"
    by blast
  from A B show ?thesis by blast
qed

section \<open>The repair of a query sequence\<close>

lemma fst_fixPrometheus_logger:
  "fst (fixPrometheusBothTypeQuery l m) = fst (fixPrometheusBothTypeQuery [] m)"
  by (simp add: fixPrometheusBothTypeQuery_def split: sum.splits)

lemma migrateQueriesFrom_step:
  assumes ne: "query_DatasourceUID d \<noteq> expressionDatasourceUID env"
  shows "\<exists>l'. fst (migrateQueriesFrom env l result (d # ds)) =
           (case repairModel (query_Model d) of
              Inl err \<Rightarrow> Inl err
            | Inr m \<Rightarrow> fst (migrateQueriesFrom env l' (result @ [d\<lparr>query_Model := m\<rparr>]) ds))"
proof (cases "unmarshalMap (query_Model d)")
  case (Inl err)
  then show ?thesis using ne by (simp add: repairModel_def)
next
  case m0: (Inr m0)
  show ?thesis
  proof (cases "fixGraphiteReferencedSubQueries (deleteKey ''hide'' m0)")
    case (Inl p)
    then show ?thesis using ne m0 by (simp add: repairModel_def)
  next
    case m1: (Inr m1)
    obtain r l' where fp: "fixPrometheusBothTypeQuery l m1 = (r, l')"
      by (cases "fixPrometheusBothTypeQuery l m1")
    then have r: "fst (fixPrometheusBothTypeQuery [] m1) = r"
      using fst_fixPrometheus_logger [of l m1] by simp
    show ?thesis
    proof (cases r)
      case (Inl p)
      then show ?thesis using ne m0 m1 fp r by (simp add: repairModel_def)
    next
      case m2: (Inr m2)
      show ?thesis
      proof (cases "marshalMap m2")
        case (Inl err)
        then show ?thesis using ne m0 m1 fp r m2 by (simp add: repairModel_def)
      next
        case (Inr updatedModel)
        then have "fst (migrateQueriesFrom env l result (d # ds)) =
                   fst (migrateQueriesFrom env l' (result @ [d\<lparr>query_Model := updatedModel\<rparr>]) ds)"
          using ne m0 m1 fp m2 by simp
        moreover have "repairModel (query_Model d) = Inr updatedModel"
          using m0 m1 r m2 Inr by (simp add: repairModel_def)
        ultimately show ?thesis by auto
      qed
    qed
  qed
qed

lemma migrateQueriesFrom_repairAll:
  "fst (migrateQueriesFrom env l result ds) = map_sum id ((@) result) (repairAll env ds)"
proof (induction ds arbitrary: l result)
  case Nil
  show ?case by simp
next
  case (Cons d ds)
  show ?case
  proof (cases "query_DatasourceUID d = expressionDatasourceUID env")
    case True
    then show ?thesis
      by (cases "repairAll env ds") (simp_all add: Cons.IH)
  next
    case False
    from migrateQueriesFrom_step [OF False, of l result ds]
    obtain l' where st: "fst (migrateQueriesFrom env l result (d # ds)) =
           (case repairModel (query_Model d) of
              Inl err \<Rightarrow> Inl err
            | Inr m \<Rightarrow> fst (migrateQueriesFrom env l' (result @ [d\<lparr>query_Model := m\<rparr>]) ds))"
      by blast
    show ?thesis
    proof (cases "repairModel (query_Model d)")
      case (Inl err)
      then show ?thesis using False st by simp
    next
      case (Inr m)
      then show ?thesis using False st
        by (cases "repairAll env ds") (simp_all add: Cons.IH)
    qed
  qed
qed

lemma migrateAlertRuleQueries_repairAll:
  "fst (migrateAlertRuleQueries env l data) = repairAll env data"
  by (cases "repairAll env data")
     (simp_all add: migrateAlertRuleQueries_def migrateQueriesFrom_repairAll)

lemma fixGraphite_defined:
  "\<exists>m'. fixGraphiteReferencedSubQueries m = Inr m'"
  by (cases m) (auto simp: fixGraphiteReferencedSubQueries_def assign_def deleteKey_def lookup_def
      split: option.splits)

lemma fixPrometheus_defined:
  "\<exists>m'. fst (fixPrometheusBothTypeQuery l m) = Inr m'"
  by (cases m) (auto simp: fixPrometheusBothTypeQuery_def assign_def unmarshalFlag_def lookup_def
      split: sum.splits option.splits)

lemma marshalMap_defined: "\<exists>raw. marshalMap m = Inr raw"
  by (cases m) (simp_all add: marshalMap_def)

lemma repairModel_error_iff:
  "isl (repairModel raw) \<longleftrightarrow> isl (unmarshalMap raw)"
proof (cases "unmarshalMap raw")
  case (Inl err)
  then show ?thesis by (simp add: repairModel_def)
next
  case (Inr m0)
  obtain m1 where m1: "fixGraphiteReferencedSubQueries (deleteKey ''hide'' m0) = Inr m1"
    using fixGraphite_defined by blast
  obtain m2 where m2: "fst (fixPrometheusBothTypeQuery [] m1) = Inr m2"
    using fixPrometheus_defined by blast
  obtain out where out: "marshalMap m2 = Inr out"
    using marshalMap_defined by blast
  show ?thesis by (simp add: repairModel_def Inr m1 m2 out)
qed

lemma repairModel_error_kind:
  "repairModel raw = Inl err \<Longrightarrow> err = SyntaxError \<or> err = UnmarshalTypeError"
proof -
  assume e: "repairModel raw = Inl err"
  then have "isl (unmarshalMap raw)" using repairModel_error_iff [of raw] by simp
  then obtain e' where u: "unmarshalMap raw = Inl e'" by (cases "unmarshalMap raw") simp_all
  then have "err = e'" using e by (simp add: repairModel_def)
  moreover have "e' = SyntaxError \<or> e' = UnmarshalTypeError"
    using u by (auto simp: unmarshalMap_def split: RawMessage.splits json.splits)
  ultimately show ?thesis by simp
qed

lemma unmarshalMap_error_iff: "isl (unmarshalMap raw) \<longleftrightarrow> \<not> decodesToMap raw"
  by (simp add: unmarshalMap_def decodesToMap_def split: RawMessage.splits json.splits)

lemma repairAll_error_iff:
  "isl (repairAll env ds) \<longleftrightarrow>
     (\<exists>d\<in>set ds. query_DatasourceUID d \<noteq> expressionDatasourceUID env \<and>
                 \<not> decodesToMap (query_Model d))"
proof (induction ds)
  case Nil
  show ?case by simp
next
  case (Cons d ds)
  show ?case
  proof (cases "query_DatasourceUID d = expressionDatasourceUID env")
    case True
    then show ?thesis using Cons.IH by (cases "repairAll env ds") auto
  next
    case False
    show ?thesis
    proof (cases "repairModel (query_Model d)")
      case (Inl err)
      then have "\<not> decodesToMap (query_Model d)"
        using repairModel_error_iff [of "query_Model d"] unmarshalMap_error_iff by simp
      then show ?thesis using False Inl by simp
    next
      case (Inr m)
      then have "decodesToMap (query_Model d)"
        using repairModel_error_iff [of "query_Model d"] unmarshalMap_error_iff by simp
      then show ?thesis using False Inr Cons.IH by (cases "repairAll env ds") auto
    qed
  qed
qed

lemma repairAll_error_kind:
  "repairAll env ds = Inl err \<Longrightarrow> err = SyntaxError \<or> err = UnmarshalTypeError"
  by (induction ds)
     (auto simp: map_sum_def dest: repairModel_error_kind split: if_splits sum.splits)

lemma repairAll_result:
  "repairAll env ds = Inr res \<Longrightarrow> list_all2 (repairedQuery env) ds res"
proof (induction ds arbitrary: res)
  case Nil
  then show ?case by simp
next
  case (Cons d ds)
  show ?case
  proof (cases "query_DatasourceUID d = expressionDatasourceUID env")
    case True
    with Cons.prems obtain rest where "repairAll env ds = Inr rest" "res = d # rest"
      by (cases "repairAll env ds") auto
    then show ?thesis using Cons.IH True by (simp add: repairedQuery_def)
  next
    case False
    with Cons.prems obtain m where m: "repairModel (query_Model d) = Inr m"
      by (cases "repairModel (query_Model d)") auto
    with False Cons.prems obtain rest where
      "repairAll env ds = Inr rest" "res = d\<lparr>query_Model := m\<rparr> # rest"
      by (cases "repairAll env ds") auto
    then show ?thesis using Cons.IH False m by (simp add: repairedQuery_def)
  qed
qed

lemmas query_eval =
  sampleEnv_def sampleQuery_def migrateAlertRuleQueries_def unmarshalMap_def deleteKey_def
  fixGraphiteReferencedSubQueries_def lookup_def fixPrometheusBothTypeQuery_def
  unmarshalFlag_def unmarshalBool_def marshalMap_def isJSONObject_def decodesToMap_def

text \<open>
  C2, as the specification states it, fails for a query whose model is the JSON literal
  null: the model is no JSON object, the datasource is not the expression sentinel, and
  the call returns the sequence without an error.
\<close>

theorem C2_counterexample:
  "query_DatasourceUID (sampleQuery ''ds1'' (Wellformed JNull)) \<noteq> expressionDatasourceUID sampleEnv \<and>
   \<not> isJSONObject (query_Model (sampleQuery ''ds1'' (Wellformed JNull))) \<and>
   fst (migrateAlertRuleQueries sampleEnv [] [sampleQuery ''ds1'' (Wellformed JNull)])
     = Inr [sampleQuery ''ds1'' (Wellformed JNull)]"
  by (simp add: query_eval)

text \<open>
  C2 (amended): \<open>migrateAlertRuleQueries\<close> either returns a sequence with the length and
  the order of the input, each element equal to the input element except possibly for
  its model and an expression query unchanged, or returns an error; it returns an error
  exactly when some query whose datasource is not the expression sentinel has a model
  that is neither a JSON object nor the JSON literal null, and the error is then a
  syntax error or a type error of the decoder.
\<close>

theorem C2_migrateAlertRuleQueries_result:
  "(isl (fst (migrateAlertRuleQueries env l data)) \<longleftrightarrow>
      (\<exists>d\<in>set data. query_DatasourceUID d \<noteq> expressionDatasourceUID env \<and>
                     \<not> decodesToMap (query_Model d))) \<and>
   (\<forall>err. fst (migrateAlertRuleQueries env l data) = Inl err \<longrightarrow>
      err = SyntaxError \<or> err = UnmarshalTypeError) \<and>
   (\<forall>res. fst (migrateAlertRuleQueries env l data) = Inr res \<longrightarrow>
      length res = length data \<and>
      (\<forall>i<length data.
         res ! i = (data ! i)\<lparr>query_Model := query_Model (res ! i)\<rparr> \<and>
         (query_DatasourceUID (data ! i) = expressionDatasourceUID env \<longrightarrow> res ! i = data ! i)))"
proof (intro conjI allI impI)
  show "isl (fst (migrateAlertRuleQueries env l data)) \<longleftrightarrow>
      (\<exists>d\<in>set data. query_DatasourceUID d \<noteq> expressionDatasourceUID env \<and>
                     \<not> decodesToMap (query_Model d))"
    by (simp only: migrateAlertRuleQueries_repairAll repairAll_error_iff)
next
  fix err assume "fst (migrateAlertRuleQueries env l data) = Inl err"
  then show "err = SyntaxError \<or> err = UnmarshalTypeError"
    by (simp only: migrateAlertRuleQueries_repairAll repairAll_error_kind)
next
  fix res assume r: "fst (migrateAlertRuleQueries env l data) = Inr res"
  then have la: "list_all2 (repairedQuery env) data res"
    by (simp only: migrateAlertRuleQueries_repairAll repairAll_result)
  then show "length res = length data" by (simp add: list_all2_lengthD)
  fix i assume i: "i < length data"
  then have rq: "repairedQuery env (data ! i) (res ! i)"
    using la by (simp add: list_all2_nthD)
  then show "res ! i = (data ! i)\<lparr>query_Model := query_Model (res ! i)\<rparr>"
    by (auto simp: repairedQuery_def split: if_splits)
  assume "query_DatasourceUID (data ! i) = expressionDatasourceUID env"
  with rq show "res ! i = data ! i" by (simp add: repairedQuery_def)
qed

theorem C2_migrateAlertRuleQueries_result_witness:
  "isl (fst (migrateAlertRuleQueries sampleEnv []
          [sampleQuery ''__expr__'' Malformed, sampleQuery ''ds1'' (Wellformed (JString ''up''))])) \<and>
   (\<exists>res. fst (migrateAlertRuleQueries sampleEnv []
              [sampleQuery ''__expr__'' Malformed,
               sampleQuery ''ds1'' (Wellformed (JObject [(''hide'', JBool True)]))]) = Inr res \<and>
          length res = 2 \<and> res ! 0 = sampleQuery ''__expr__'' Malformed)"
proof -
  let ?bad = "[sampleQuery ''__expr__'' Malformed, sampleQuery ''ds1'' (Wellformed (JString ''up''))]"
  let ?good = "[sampleQuery ''__expr__'' Malformed,
                sampleQuery ''ds1'' (Wellformed (JObject [(''hide'', JBool True)]))]"
  have b: "\<exists>d\<in>set ?bad. query_DatasourceUID d \<noteq> expressionDatasourceUID sampleEnv \<and>
                     \<not> decodesToMap (query_Model d)"
    by (simp add: sampleEnv_def sampleQuery_def decodesToMap_def)
  have g: "\<not> (\<exists>d\<in>set ?good. query_DatasourceUID d \<noteq> expressionDatasourceUID sampleEnv \<and>
                     \<not> decodesToMap (query_Model d))"
    by (simp add: sampleEnv_def sampleQuery_def decodesToMap_def)
  have e: "query_DatasourceUID (?good ! 0) = expressionDatasourceUID sampleEnv"
    by (simp add: sampleEnv_def sampleQuery_def)
  have A: "isl (fst (migrateAlertRuleQueries sampleEnv [] ?bad))"
    using C2_migrateAlertRuleQueries_result [of sampleEnv "[]" ?bad] b by blast
  have "\<not> isl (fst (migrateAlertRuleQueries sampleEnv [] ?good))"
    using C2_migrateAlertRuleQueries_result [of sampleEnv "[]" ?good] g by blast
  then obtain res where r: "fst (migrateAlertRuleQueries sampleEnv [] ?good) = Inr res"
    by (cases "fst (migrateAlertRuleQueries sampleEnv [] ?good)") simp_all
  then have "length res = length ?good \<and> res ! 0 = ?good ! 0"
    using C2_migrateAlertRuleQueries_result [of sampleEnv "[]" ?good] e by auto
  then have "length res = 2 \<and> res ! 0 = sampleQuery ''__expr__'' Malformed" by simp
  with A r show ?thesis by blast
qed

section \<open>Round trip of an accepted model\<close>

lemma repairModel_roundtrip:
  assumes hide: "objectMapping kvs ''hide'' = None"
    and full: "objectMapping kvs TargetFullModelField = None"
    and both: "\<not> (objectMapping kvs ''instant'' = Some (JBool True) \<and>
                 objectMapping kvs ''range'' = Some (JBool True) \<and>
                 (\<exists>ds. objectMapping kvs ''datasource'' = Some ds \<and>
                       unmarshalDatasource ds = Inr DS_PROMETHEUS))"
  shows "\<exists>kvs'. repairModel (Wellformed (JObject kvs)) = Inr (Wellformed (JObject kvs')) \<and>
           objectMapping kvs' = objectMapping kvs"
proof -
  obtain m0 where m0: "unmarshalMap (Wellformed (JObject kvs)) = Inr m0" and ne: "m0 \<noteq> NilMap"
    by (simp add: unmarshalMap_def)
  have l0: "lookup m0 = objectMapping kvs" by (rule lookup_unmarshalMap_object [OF m0])
  have d0: "distinctKeys m0" by (rule distinctKeys_unmarshalMap [OF m0])
  define m1 where "m1 = deleteKey ''hide'' m0"
  have l1: "lookup m1 = objectMapping kvs"
    using hide by (auto simp: m1_def lookup_deleteKey l0 fun_eq_iff)
  have d1: "distinctKeys m1" unfolding m1_def by (rule distinctKeys_deleteKey [OF d0])
  have ne1: "m1 \<noteq> NilMap" using ne by (cases m0) (simp_all add: m1_def deleteKey_def)
  have g: "fixGraphiteReferencedSubQueries m1 = Inr m1"
    using full by (simp add: fixGraphiteReferencedSubQueries_def l1)
  have p: "fst (fixPrometheusBothTypeQuery [] m1) = Inr m1"
    using both by (intro fixPrometheus_unchanged)
      (simp add: unmarshalFlag_True isPrometheusQuery_True_iff l1)
  obtain kvs' where k: "marshalMap m1 = Inr (Wellformed (JObject kvs'))"
      and e: "objectMapping kvs' = lookup m1"
    using marshalMap_object [OF d1 ne1] by blast
  have "repairModel (Wellformed (JObject kvs)) = Inr (Wellformed (JObject kvs'))"
    using m0 g p k by (simp add: repairModel_def m1_def)
  then show ?thesis using e l1 by auto
qed

text \<open>
  C9: for a query that is no expression and whose model is a JSON object with no "hide"
  key and no fully expanded Graphite target field, and that is not a Prometheus query with
  both "instant" and "range" true, \<open>migrateAlertRuleQueries\<close> returns a model that is a
  JSON object denoting the same key-value mapping as the input model, whatever the order
  of its keys: so for the query alone, and so at its position in any sequence that is
  migrated without error.
\<close>

theorem C9_accepted_model_roundtrip:
  assumes nonexpr: "query_DatasourceUID d \<noteq> expressionDatasourceUID env"
    and model: "query_Model d = Wellformed (JObject kvs)"
    and hide: "objectMapping kvs ''hide'' = None"
    and full: "objectMapping kvs TargetFullModelField = None"
    and both: "\<not> (objectMapping kvs ''instant'' = Some (JBool True) \<and>
                 objectMapping kvs ''range'' = Some (JBool True) \<and>
                 (\<exists>ds. objectMapping kvs ''datasource'' = Some ds \<and>
                       unmarshalDatasource ds = Inr DS_PROMETHEUS))"
  shows "(\<exists>kvs'. fst (migrateAlertRuleQueries env l [d])
                   = Inr [d\<lparr>query_Model := Wellformed (JObject kvs')\<rparr>] \<and>
                 objectMapping kvs' = objectMapping kvs) \<and>
         (\<forall>data res i.
            fst (migrateAlertRuleQueries env l data) = Inr res \<and> i < length data \<and> data ! i = d
            \<longrightarrow> (\<exists>kvs'. res ! i = d\<lparr>query_Model := Wellformed (JObject kvs')\<rparr> \<and>
                        objectMapping kvs' = objectMapping kvs))"
proof -
  obtain kvs' where r: "repairModel (query_Model d) = Inr (Wellformed (JObject kvs'))"
      and e: "objectMapping kvs' = objectMapping kvs"
    using repairModel_roundtrip [OF hide full both] model by auto
  have one: "fst (migrateAlertRuleQueries env l [d])
               = Inr [d\<lparr>query_Model := Wellformed (JObject kvs')\<rparr>]"
    using nonexpr r by (simp add: migrateAlertRuleQueries_repairAll)
  have all: "\<exists>kvs'. res ! i = d\<lparr>query_Model := Wellformed (JObject kvs')\<rparr> \<and>
                        objectMapping kvs' = objectMapping kvs"
    if h: "fst (migrateAlertRuleQueries env l data) = Inr res \<and> i < length data \<and> data ! i = d"
    for data res i
  proof -
    from h have "list_all2 (repairedQuery env) data res"
      by (simp only: migrateAlertRuleQueries_repairAll repairAll_result)
    with h have "repairedQuery env d (res ! i)"
      using list_all2_nthD by fastforce
    with nonexpr r have "res ! i = d\<lparr>query_Model := Wellformed (JObject kvs')\<rparr>"
      by (auto simp: repairedQuery_def)
    with e show ?thesis by blast
  qed
  from one e all show ?thesis by blast
qed

theorem C9_accepted_model_roundtrip_witness:
  "\<exists>kvs'. fst (migrateAlertRuleQueries sampleEnv [] [sampleQuery ''ds1'' (Wellformed (JObject acceptedModel))])
             = Inr [sampleQuery ''ds1'' (Wellformed (JObject kvs'))] \<and>
          objectMapping kvs' ''expr'' = Some (JString ''up'') \<and>
          objectMapping kvs' ''instant'' = None"
proof -
  let ?d = "sampleQuery ''ds1'' (Wellformed (JObject acceptedModel))"
  have n: "query_DatasourceUID ?d \<noteq> expressionDatasourceUID sampleEnv"
    by (simp add: sampleEnv_def sampleQuery_def)
  have m: "query_Model ?d = Wellformed (JObject acceptedModel)"
    by (simp add: sampleQuery_def)
  have h: "objectMapping acceptedModel ''hide'' = None"
    and f: "objectMapping acceptedModel TargetFullModelField = None"
    and i: "objectMapping acceptedModel ''instant'' = None"
    and x: "objectMapping acceptedModel ''expr'' = Some (JString ''up'')"
    by (simp_all add: objectMapping_def acceptedModel_def TargetFullModelField_def)
  have b: "\<not> (objectMapping acceptedModel ''instant'' = Some (JBool True) \<and>
              objectMapping acceptedModel ''range'' = Some (JBool True) \<and>
              (\<exists>ds. objectMapping acceptedModel ''datasource'' = Some ds \<and>
                    unmarshalDatasource ds = Inr DS_PROMETHEUS))"
    by (simp add: i)
  from C9_accepted_model_roundtrip [OF n m h f b, of "[]"] obtain kvs' where
    "fst (migrateAlertRuleQueries sampleEnv [] [?d]) = Inr [?d\<lparr>query_Model := Wellformed (JObject kvs')\<rparr>]"
    "objectMapping kvs' = objectMapping acceptedModel"
    by blast
  then show ?thesis using i x by (auto simp: sampleQuery_def)
qed

section \<open>The rule-group name\<close>

lemma truncate_name_fits:
  "0 \<le> len \<Longrightarrow> truncate_name daName len = Inr (take (nat len) daName)"
  by (simp add: truncate_name_def)

lemma groupName_suffix_too_long:
  "AlertRuleMaxRuleGroupNameLength env
     < int (length ('' - '' @ durationString env (secondsToDuration interval))) \<Longrightarrow>
   groupName env interval dashboardTitle = Inl (Panic ''slice bounds out of range'')"
  by (simp add: groupName_def truncate_name_def Let_def)

text \<open>
  C6: whenever the suffix " - " followed by the rendered duration fits the maximum
  rule-group-name length (which holds for every duration the Prometheus renderer prints
  and the maximum the store declares), \<open>groupName\<close> returns the dashboard title cut to
  the room the suffix leaves, followed by the whole suffix; the result is never longer
  than the maximum, and when the title had to be cut its length is exactly the maximum.
\<close>

theorem C6_groupName_length:
  assumes fits: "int (length ('' - '' @ durationString env (secondsToDuration interval)))
                   \<le> AlertRuleMaxRuleGroupNameLength env"
  shows "\<exists>truncatedDashboard.
           groupName env interval dashboardTitle =
             Inr (truncatedDashboard @ '' - '' @ durationString env (secondsToDuration interval)) \<and>
           truncatedDashboard =
             take (nat (AlertRuleMaxRuleGroupNameLength env -
                        int (length ('' - '' @ durationString env (secondsToDuration interval)))))
               dashboardTitle \<and>
           int (length (truncatedDashboard @ '' - '' @ durationString env (secondsToDuration interval)))
             \<le> AlertRuleMaxRuleGroupNameLength env \<and>
           (truncatedDashboard \<noteq> dashboardTitle \<longrightarrow>
              int (length (truncatedDashboard @ '' - '' @ durationString env (secondsToDuration interval)))
                = AlertRuleMaxRuleGroupNameLength env)"
proof -
  define suffix where "suffix = '' - '' @ durationString env (secondsToDuration interval)"
  define n where "n = nat (AlertRuleMaxRuleGroupNameLength env - int (length suffix))"
  have room: "0 \<le> AlertRuleMaxRuleGroupNameLength env - int (length suffix)"
    using fits by (simp add: suffix_def)
  have g: "groupName env interval dashboardTitle = Inr (take n dashboardTitle @ suffix)"
    unfolding groupName_def Let_def suffix_def [symmetric] n_def
    by (simp only: truncate_name_fits [OF room] sum.case)
  have le: "int (length (take n dashboardTitle @ suffix)) \<le> AlertRuleMaxRuleGroupNameLength env"
    using room by (simp add: n_def)
  have eq: "int (length (take n dashboardTitle @ suffix)) = AlertRuleMaxRuleGroupNameLength env"
    if "take n dashboardTitle \<noteq> dashboardTitle"
  proof -
    from that have "n < length dashboardTitle" by (metis take_all not_le_imp_less)
    then have "length (take n dashboardTitle) = n" by simp
    then show ?thesis using room by (simp add: n_def)
  qed
  show ?thesis
    using g le eq unfolding suffix_def n_def by auto
qed

theorem C6_groupName_length_witness:
  "groupName shortNamesEnv 60 ''A very long dashboard title that exceeds the limit''
     = Inr ''A very long das - 1m'' \<and>
   int (length ''A very long das - 1m'') = AlertRuleMaxRuleGroupNameLength shortNamesEnv"
proof -
  have d: "durationString shortNamesEnv (secondsToDuration 60) = ''1m''"
    by (simp add: shortNamesEnv_def sampleEnv_def secondsToDuration_def)
  have m: "AlertRuleMaxRuleGroupNameLength shortNamesEnv = 20"
    by (simp add: shortNamesEnv_def sampleEnv_def)
  have fits: "int (length ('' - '' @ durationString shortNamesEnv (secondsToDuration 60)))
                \<le> AlertRuleMaxRuleGroupNameLength shortNamesEnv"
    by (simp add: d m)
  from C6_groupName_length [OF fits, of "''A very long dashboard title that exceeds the limit''"]
  show ?thesis by (simp add: d m)
qed

section \<open>Annotations and silences of a migrated rule\<close>

lemma dom_annotations:
  "dom (snd (addLabelsAndAnnotations env alert dashboardUID channels)) =
     {DashboardUIDAnnotation env, PanelIDAnnotation env, MigratedAlertIdAnnotation env,
      MigratedMessageAnnotation env}"
  by (auto simp: addLabelsAndAnnotations_def Let_def)

lemma addErrorSilence_silences:
  "om_silences (snd (addErrorSilence env om ar)) =
     om_silences om @ [\<lparr>silence_Kind = ErrorSilence, silence_RuleUID = rule_UID ar\<rparr>]"
  by (simp add: addErrorSilence_def addSilence_def)

lemma addNoDataSilence_silences:
  "om_silences (snd (addNoDataSilence env om ar)) =
     om_silences om @ [\<lparr>silence_Kind = NoDataSilence, silence_RuleUID = rule_UID ar\<rparr>]"
  by (simp add: addNoDataSilence_def addSilence_def)

lemma errorSilence_step:
  "om_silences (case addErrorSilence env om ar of
       (Some err, om') \<Rightarrow> om'\<lparr>om_log := f om'\<rparr>
     | (None, om') \<Rightarrow> om') =
   om_silences om @ [\<lparr>silence_Kind = ErrorSilence, silence_RuleUID = rule_UID ar\<rparr>]"
  using addErrorSilence_silences [of env om ar]
  by (cases "addErrorSilence env om ar") (auto split: option.splits)

lemma noDataSilence_step:
  "om_silences (case addNoDataSilence env om ar of
       (Some err, om') \<Rightarrow> om'\<lparr>om_log := f om'\<rparr>
     | (None, om') \<Rightarrow> om') =
   om_silences om @ [\<lparr>silence_Kind = NoDataSilence, silence_RuleUID = rule_UID ar\<rparr>]"
  using addNoDataSilence_silences [of env om ar]
  by (cases "addNoDataSilence env om ar") (auto split: option.splits)

text \<open>What a successful call of \<open>migrateAlert\<close> has gone through.\<close>

lemma migrateAlert_success:
  assumes ok: "migrateAlert env om l alert info = (Inr ar, om', l')"
  shows "\<exists>rawSettings parsedSettings channels.
           marshalSettings env (alert_Settings alert) = Inr rawSettings \<and>
           unmarshalSettings env rawSettings = Inr parsedSettings \<and>
           rule_UID ar = generateShortUID env \<and>
           rule_IntervalSeconds ar = ruleAdjustInterval (alert_Frequency alert) \<and>
           rule_Annotations ar =
             snd (addLabelsAndAnnotations env alert (info_DashboardUID info) channels) \<and>
           om_silences om' = om_silences om @ silencesFor parsedSettings (rule_UID ar)"
proof -
  note defs = migrateAlert_def Let_def
  obtain raw where raw: "marshalSettings env (alert_Settings alert) = Inr raw"
    using ok by (cases "marshalSettings env (alert_Settings alert)") (simp_all add: defs)
  obtain ps where ps: "unmarshalSettings env raw = Inr ps"
    using ok raw by (cases "unmarshalSettings env raw") (simp_all add: defs)
  obtain cond where cond: "transConditions env ps (alert_OrgID alert) = Inr cond"
    using ok raw ps
    by (cases "transConditions env ps (alert_OrgID alert)") (simp_all add: defs)
  obtain channels lc where ch:
    "extractChannels env (logAt LvlDebug l ''Migrating alert rule to Unified Alerting'') ps
       = (channels, lc)"
    by (cases "extractChannels env (logAt LvlDebug l ''Migrating alert rule to Unified Alerting'') ps")
  obtain lbls annotations where la:
    "addLabelsAndAnnotations env alert (info_DashboardUID info) channels = (lbls, annotations)"
    by (cases "addLabelsAndAnnotations env alert (info_DashboardUID info) channels")
  obtain qr lq where q: "migrateAlertRuleQueries env lc (cond_Data cond) = (qr, lq)"
    by (cases "migrateAlertRuleQueries env lc (cond_Data cond)")
  obtain data where data: "qr = Inr data"
    using ok raw ps cond ch la q by (cases qr) (simp_all add: defs)
  obtain name where name:
    "deduplicateTitle env (info_NewFolderUID info) (alert_Name alert) = Inr name"
    using ok raw ps cond ch la q data
    by (cases "deduplicateTitle env (info_NewFolderUID info) (alert_Name alert)")
       (simp_all add: defs)
  obtain rg where rg:
    "groupName env (ruleAdjustInterval (alert_Frequency alert)) (info_DashboardName info) = Inr rg"
    using ok raw ps cond ch la q data name
    by (cases "groupName env (ruleAdjustInterval (alert_Frequency alert)) (info_DashboardName info)")
       (simp_all add: defs)
  define l1 where "l1 = (if name \<noteq> alert_Name alert
                then logAt LvlInfo lq
                  ''Alert rule title modified to be unique within the folder and fit within the maximum length''
                else lq)"
  obtain nd l2 where nd: "transNoData l1 (settings_NoDataState ps) = (nd, l2)"
    by (cases "transNoData l1 (settings_NoDataState ps)")
  obtain ee l3 where ee: "transExecErr l2 (settings_ExecutionErrorState ps) = (ee, l3)"
    by (cases "transExecErr l2 (settings_ExecutionErrorState ps)")
  have uid: "rule_UID ar = generateShortUID env"
    using ok raw ps cond ch la q data name rg nd ee
    by (auto simp: defs l1_def [symmetric])
  have iv: "rule_IntervalSeconds ar = ruleAdjustInterval (alert_Frequency alert)"
    using ok raw ps cond ch la q data name rg nd ee
    by (auto simp: defs l1_def [symmetric])
  have ann: "rule_Annotations ar = annotations"
    using ok raw ps cond ch la q data name rg nd ee
    by (auto simp: defs l1_def [symmetric])
  have sil: "om_silences om' = om_silences om @ silencesFor ps (rule_UID ar)"
    using ok raw ps cond ch la q data name rg nd ee
    by (auto simp: defs l1_def [symmetric] silencesFor_def errorSilence_step noDataSilence_step)
  show ?thesis using raw ps uid iv ann la sil by (metis snd_conv)
qed

text \<open>A call that ends in a hard error leaves the migration state as it was.\<close>

lemma migrateAlert_failure:
  assumes bad: "migrateAlert env om l alert info = (Inl err, om', l')"
  shows "om' = om"
proof -
  note defs = migrateAlert_def Let_def
  show ?thesis
  proof (cases "marshalSettings env (alert_Settings alert)")
    case (Inl e) then show ?thesis using bad by (simp add: defs)
  next
    case raw: (Inr raw)
    show ?thesis
    proof (cases "unmarshalSettings env raw")
      case (Inl e) then show ?thesis using bad raw by (simp add: defs)
    next
      case ps: (Inr ps)
      show ?thesis
      proof (cases "transConditions env ps (alert_OrgID alert)")
        case (Inl e) then show ?thesis using bad raw ps by (simp add: defs)
      next
        case cond: (Inr cond)
        obtain channels lc where ch:
          "extractChannels env (logAt LvlDebug l ''Migrating alert rule to Unified Alerting'') ps
             = (channels, lc)"
          by (cases "extractChannels env (logAt LvlDebug l ''Migrating alert rule to Unified Alerting'') ps")
        obtain lbls annotations where la:
          "addLabelsAndAnnotations env alert (info_DashboardUID info) channels = (lbls, annotations)"
          by (cases "addLabelsAndAnnotations env alert (info_DashboardUID info) channels")
        obtain qr lq where q: "migrateAlertRuleQueries env lc (cond_Data cond) = (qr, lq)"
          by (cases "migrateAlertRuleQueries env lc (cond_Data cond)")
        show ?thesis
        proof (cases qr)
          case (Inl e) then show ?thesis using bad raw ps cond ch la q by (simp add: defs)
        next
          case data: (Inr data)
          show ?thesis
          proof (cases "deduplicateTitle env (info_NewFolderUID info) (alert_Name alert)")
            case (Inl e) then show ?thesis using bad raw ps cond ch la q data by (simp add: defs)
          next
            case name: (Inr name)
            show ?thesis
            proof (cases "groupName env (ruleAdjustInterval (alert_Frequency alert))
                            (info_DashboardName info)")
              case (Inl e)
              then show ?thesis using bad raw ps cond ch la q data name by (simp add: defs)
            next
              case (Inr rg)
              then show ?thesis using bad raw ps cond ch la q data name
                by (simp add: defs split: prod.splits)
            qed
          qed
        qed
      qed
    qed
  qed
qed

lemmas alert_eval =
  migrateAlert_def Let_def sampleEnv_def sampleAlert_def sampleInfo_def sampleSettings_def
  keepStateEnv_def emptyMigration_def extractChannels_def addLabelsAndAnnotations_def
  migrateAlertRuleQueries_def groupName_def truncate_name_def secondsToDuration_def
  transNoData_def transExecErr_def logAt_def wrapError_def
  addErrorSilence_def addNoDataSilence_def addSilence_def
  NoDataSetOK_def NoDataSetNoData_def NoDataSetAlerting_def NoDataKeepState_def
  ExecutionErrorSetAlerting_def ExecutionErrorKeepState_def ExecutionErrorSetOk_def
  ruleAdjustInterval_23

lemma sampleAlert_migrates:
  "\<not> isl (fst (migrateAlert sampleEnv emptyMigration [] sampleAlert sampleInfo))"
  by (simp add: alert_eval)

lemma sampleAlert_migrates_keepState:
  "\<not> isl (fst (migrateAlert keepStateEnv emptyMigration [] sampleAlert sampleInfo))"
  by (simp add: alert_eval)

lemma result_triple:
  "\<not> isl (fst X) \<Longrightarrow> X = (Inr (projr (fst X)), fst (snd X), snd (snd X))"
  by (cases X, cases "fst X") auto

text \<open>
  C8: the annotation mapping that \<open>addLabelsAndAnnotations\<close> builds, which is the one a
  migrated rule carries, has exactly the four fixed keys (dashboard id, panel id, legacy
  alert id, message) as its domain, for every alert; the message key holds the rendered
  message, and with four different key constants the other three hold the dashboard id
  and the decimal panel and alert ids. No key is left out when its value is empty.
\<close>

theorem C8_annotation_keys:
  "dom (snd (addLabelsAndAnnotations env alert dashboardUID channels)) =
     {DashboardUIDAnnotation env, PanelIDAnnotation env, MigratedAlertIdAnnotation env,
      MigratedMessageAnnotation env} \<and>
   snd (addLabelsAndAnnotations env alert dashboardUID channels) (MigratedMessageAnnotation env)
     = Some (MigrateTmpl env (alert_Message alert)) \<and>
   (distinct [DashboardUIDAnnotation env, PanelIDAnnotation env, MigratedAlertIdAnnotation env,
              MigratedMessageAnnotation env] \<longrightarrow>
      snd (addLabelsAndAnnotations env alert dashboardUID channels) (DashboardUIDAnnotation env)
        = Some dashboardUID \<and>
      snd (addLabelsAndAnnotations env alert dashboardUID channels) (PanelIDAnnotation env)
        = Some (formatInt64 (alert_PanelID alert)) \<and>
      snd (addLabelsAndAnnotations env alert dashboardUID channels) (MigratedAlertIdAnnotation env)
        = Some (formatInt64 (alert_ID alert)) \<and>
      card (dom (snd (addLabelsAndAnnotations env alert dashboardUID channels))) = 4) \<and>
   (\<forall>om l info ar om' l'.
      migrateAlert env om l alert info = (Inr ar, om', l') \<longrightarrow>
      dom (rule_Annotations ar) =
        {DashboardUIDAnnotation env, PanelIDAnnotation env, MigratedAlertIdAnnotation env,
         MigratedMessageAnnotation env})"
proof (intro conjI allI impI)
  show "dom (snd (addLabelsAndAnnotations env alert dashboardUID channels)) =
     {DashboardUIDAnnotation env, PanelIDAnnotation env, MigratedAlertIdAnnotation env,
      MigratedMessageAnnotation env}"
    by (rule dom_annotations)
  show "snd (addLabelsAndAnnotations env alert dashboardUID channels) (MigratedMessageAnnotation env)
     = Some (MigrateTmpl env (alert_Message alert))"
    by (simp add: addLabelsAndAnnotations_def Let_def)
next
  assume d: "distinct [DashboardUIDAnnotation env, PanelIDAnnotation env,
                       MigratedAlertIdAnnotation env, MigratedMessageAnnotation env]"
  then show "snd (addLabelsAndAnnotations env alert dashboardUID channels) (DashboardUIDAnnotation env)
        = Some dashboardUID"
    by (auto simp: addLabelsAndAnnotations_def Let_def)
  from d show "snd (addLabelsAndAnnotations env alert dashboardUID channels) (PanelIDAnnotation env)
        = Some (formatInt64 (alert_PanelID alert))"
    by (auto simp: addLabelsAndAnnotations_def Let_def)
  from d show "snd (addLabelsAndAnnotations env alert dashboardUID channels) (MigratedAlertIdAnnotation env)
        = Some (formatInt64 (alert_ID alert))"
    by (auto simp: addLabelsAndAnnotations_def Let_def)
  from d show "card (dom (snd (addLabelsAndAnnotations env alert dashboardUID channels))) = 4"
    by (simp add: dom_annotations)
next
  fix om l info ar om' l'
  assume "migrateAlert env om l alert info = (Inr ar, om', l')"
  from migrateAlert_success [OF this] obtain channels where
    "rule_Annotations ar = snd (addLabelsAndAnnotations env alert (info_DashboardUID info) channels)"
    by blast
  then show "dom (rule_Annotations ar) =
        {DashboardUIDAnnotation env, PanelIDAnnotation env, MigratedAlertIdAnnotation env,
         MigratedMessageAnnotation env}"
    by (simp add: dom_annotations)
qed

theorem C8_annotation_keys_witness:
  "snd (addLabelsAndAnnotations sampleEnv sampleAlert '''' []) ''__dashboardUid__'' = Some '''' \<and>
   snd (addLabelsAndAnnotations sampleEnv sampleAlert '''' []) ''message'' = Some '''' \<and>
   card (dom (snd (addLabelsAndAnnotations sampleEnv sampleAlert '''' []))) = 4 \<and>
   dom (rule_Annotations
          (projr (fst (migrateAlert sampleEnv emptyMigration [] sampleAlert sampleInfo))))
     = {''__dashboardUid__'', ''__panelId__'', ''__alertId__'', ''message''}"
proof -
  have d: "distinct [DashboardUIDAnnotation sampleEnv, PanelIDAnnotation sampleEnv,
                     MigratedAlertIdAnnotation sampleEnv, MigratedMessageAnnotation sampleEnv]"
    by (simp add: sampleEnv_def)
  have k: "DashboardUIDAnnotation sampleEnv = ''__dashboardUid__''"
      "PanelIDAnnotation sampleEnv = ''__panelId__''"
      "MigratedAlertIdAnnotation sampleEnv = ''__alertId__''"
      "MigratedMessageAnnotation sampleEnv = ''message''"
      "MigrateTmpl sampleEnv (alert_Message sampleAlert) = ''''"
    by (simp_all add: sampleEnv_def sampleAlert_def)
  have r: "migrateAlert sampleEnv emptyMigration [] sampleAlert sampleInfo =
        (Inr (projr (fst (migrateAlert sampleEnv emptyMigration [] sampleAlert sampleInfo))),
         fst (snd (migrateAlert sampleEnv emptyMigration [] sampleAlert sampleInfo)),
         snd (snd (migrateAlert sampleEnv emptyMigration [] sampleAlert sampleInfo)))"
    by (rule result_triple [OF sampleAlert_migrates])
  from C8_annotation_keys [of sampleEnv sampleAlert "''''" "[]"] d r
  show ?thesis unfolding k by blast
qed

text \<open>
  C7: when \<open>migrateAlert\<close> returns a rule, the silence requests it has added are: one
  error silence if and only if the parsed execution-error option is "keep_state", then
  one no-data silence if and only if the parsed no-data option is "keep_state"; each
  carries the identifier generated for the rule, so there is at most one request of each
  kind and at most two in all.
\<close>

theorem C7_silence_requests:
  assumes ok: "migrateAlert env om l alert info = (Inr ar, om', l')"
    and raw: "marshalSettings env (alert_Settings alert) = Inr rawSettings"
    and parsed: "unmarshalSettings env rawSettings = Inr parsedSettings"
  shows "om_silences om' =
           om_silences om @
           (if settings_ExecutionErrorState parsedSettings = ''keep_state''
            then [\<lparr>silence_Kind = ErrorSilence, silence_RuleUID = rule_UID ar\<rparr>] else []) @
           (if settings_NoDataState parsedSettings = ''keep_state''
            then [\<lparr>silence_Kind = NoDataSilence, silence_RuleUID = rule_UID ar\<rparr>] else []) \<and>
         rule_UID ar = generateShortUID env"
proof -
  from migrateAlert_success [OF ok] obtain raw' ps where
    a: "marshalSettings env (alert_Settings alert) = Inr raw'"
    and b: "unmarshalSettings env raw' = Inr ps"
    and u: "rule_UID ar = generateShortUID env"
    and s: "om_silences om' = om_silences om @ silencesFor ps (rule_UID ar)"
    by blast
  from a raw have "raw' = rawSettings" by simp
  with b parsed have "ps = parsedSettings" by simp
  with s u show ?thesis
    by (simp add: silencesFor_def ExecutionErrorKeepState_def NoDataKeepState_def)
qed

theorem C7_silence_requests_witness:
  "om_silences (fst (snd (migrateAlert keepStateEnv emptyMigration [] sampleAlert sampleInfo)))
     = [\<lparr>silence_Kind = ErrorSilence, silence_RuleUID = ''uid1''\<rparr>] \<and>
   om_silences (fst (snd (migrateAlert sampleEnv emptyMigration [] sampleAlert sampleInfo))) = []"
proof -
  let ?K = "migrateAlert keepStateEnv emptyMigration [] sampleAlert sampleInfo"
  let ?S = "migrateAlert sampleEnv emptyMigration [] sampleAlert sampleInfo"
  have rk: "?K = (Inr (projr (fst ?K)), fst (snd ?K), snd (snd ?K))"
    by (rule result_triple [OF sampleAlert_migrates_keepState])
  have rs: "?S = (Inr (projr (fst ?S)), fst (snd ?S), snd (snd ?S))"
    by (rule result_triple [OF sampleAlert_migrates])
  have mk: "marshalSettings keepStateEnv (alert_Settings sampleAlert) = Inr ''{}''"
    and uk: "unmarshalSettings keepStateEnv ''{}''
               = Inr (sampleSettings\<lparr>settings_ExecutionErrorState := ''keep_state''\<rparr>)"
    and ms: "marshalSettings sampleEnv (alert_Settings sampleAlert) = Inr ''{}''"
    and us: "unmarshalSettings sampleEnv ''{}'' = Inr sampleSettings"
    and g: "generateShortUID keepStateEnv = ''uid1''"
    by (simp_all add: keepStateEnv_def sampleEnv_def)
  from C7_silence_requests [OF rk mk uk]
  have A: "om_silences (fst (snd ?K)) = [\<lparr>silence_Kind = ErrorSilence, silence_RuleUID = ''uid1''\<rparr>]"
    by (simp add: g sampleSettings_def emptyMigration_def)
  from C7_silence_requests [OF rs ms us]
  have B: "om_silences (fst (snd ?S)) = []"
    by (simp add: sampleSettings_def emptyMigration_def)
  from A B show ?thesis by simp
qed

end
